theory Spec2Isabelle
  imports Complex_Main
begin

section \<open>Array entries and errors\<close>

text \<open>
  An entry of a numpy float array is modelled as an exact real number or the
  not-a-number value. Arithmetic is exact on numbers and \<open>NaN\<close> absorbs every
  operation, as in IEEE arithmetic. Rounding, overflow and the infinities are not
  part of the model: what is proved about numbers is proved of the exact values the
  floating-point results approximate.
\<close>

datatype scalar = NaN | Val real

instantiation scalar :: "{plus, minus, uminus, times}"
begin

fun plus_scalar :: "scalar \<Rightarrow> scalar \<Rightarrow> scalar" where
  "plus_scalar (Val a) (Val b) = Val (a + b)"
| "plus_scalar _ _ = NaN"

fun minus_scalar :: "scalar \<Rightarrow> scalar \<Rightarrow> scalar" where
  "minus_scalar (Val a) (Val b) = Val (a - b)"
| "minus_scalar _ _ = NaN"

fun uminus_scalar :: "scalar \<Rightarrow> scalar" where
  "uminus_scalar (Val a) = Val (- a)"
| "uminus_scalar NaN = NaN"

fun times_scalar :: "scalar \<Rightarrow> scalar \<Rightarrow> scalar" where
  "times_scalar (Val a) (Val b) = Val (a * b)"
| "times_scalar _ _ = NaN"

instance ..

end

text \<open>\<open>np.sin\<close>, \<open>np.cos\<close>, \<open>np.sqrt\<close>, \<open>np.arccos\<close>, \<open>np.isnan\<close> on one entry.
  Outside their real domain \<open>np.sqrt\<close> and \<open>np.arccos\<close> give \<open>NaN\<close>.\<close>

fun np_sin :: "scalar \<Rightarrow> scalar" where
  "np_sin (Val a) = Val (sin a)"
| "np_sin NaN = NaN"

fun np_cos :: "scalar \<Rightarrow> scalar" where
  "np_cos (Val a) = Val (cos a)"
| "np_cos NaN = NaN"

fun np_sqrt :: "scalar \<Rightarrow> scalar" where
  "np_sqrt (Val a) = (if a < 0 then NaN else Val (sqrt a))"
| "np_sqrt NaN = NaN"

fun np_arccos :: "scalar \<Rightarrow> scalar" where
  "np_arccos (Val a) = (if - 1 \<le> a \<and> a \<le> 1 then Val (arccos a) else NaN)"
| "np_arccos NaN = NaN"

fun np_isnan :: "scalar \<Rightarrow> bool" where
  "np_isnan NaN = True"
| "np_isnan (Val a) = False"

text \<open>Comparisons of an entry with a float literal: every comparison with \<open>NaN\<close> is false.\<close>

fun greater_equal :: "scalar \<Rightarrow> real \<Rightarrow> bool" where
  "greater_equal (Val a) b = (b \<le> a)"
| "greater_equal NaN b = False"

fun less_equal :: "scalar \<Rightarrow> real \<Rightarrow> bool" where
  "less_equal (Val a) b = (a \<le> b)"
| "less_equal NaN b = False"

fun equal_to :: "scalar \<Rightarrow> real \<Rightarrow> bool" where
  "equal_to (Val a) b = (a = b)"
| "equal_to NaN b = False"

text \<open>The sum of \<open>f 0, ..., f (n - 1)\<close>: the contraction over one axis.\<close>

primrec fsum :: "(nat \<Rightarrow> scalar) \<Rightarrow> nat \<Rightarrow> scalar" where
  "fsum f 0 = Val 0"
| "fsum f (Suc n) = fsum f n + f n"

text \<open>The exceptions the two modules can raise, and sequencing of fallible steps.\<close>

datatype error = AssertionError string | NameError string | ValueError | IndexError

definition ebind :: "error + 'a \<Rightarrow> ('a \<Rightarrow> error + 'b) \<Rightarrow> error + 'b" where
  "ebind r f = (case r of Inl e \<Rightarrow> Inl e | Inr x \<Rightarrow> f x)"

text \<open>
  numpy's broadcasting rule along the leading axis of two collections: equal lengths
  pair up index by index, a collection of length one is stretched, anything else
  raises \<open>ValueError\<close>.
\<close>

definition broadcast :: "'a list \<Rightarrow> 'b list \<Rightarrow> error + ('a \<times> 'b) list" where
  "broadcast xs ys =
     (if length xs = length ys then Inr (zip xs ys)
      else if length xs = 1 then Inr (map (\<lambda>y. (hd xs, y)) ys)
      else if length ys = 1 then Inr (map (\<lambda>x. (x, hd ys)) xs)
      else Inl ValueError)"

section \<open>Shaped arrays of rank two and three\<close>

text \<open>
  The rotation-application routines dispatch on \<open>np.shape\<close>, so their arguments are
  arrays as numpy holds them: the extents and a row-major buffer. The documented
  arguments have rank two (one matrix, a collection of vectors) or rank three (a
  collection of matrices, sets of vectors).
\<close>

datatype array2 = Array2 nat nat "scalar list"

datatype array3 = Array3 nat nat nat "scalar list"

datatype ndarray = Rank2 array2 | Rank3 array3

fun shape :: "ndarray \<Rightarrow> nat list" where
  "shape (Rank2 (Array2 n d buf)) = [n, d]"
| "shape (Rank3 (Array3 s n d buf)) = [s, n, d]"

fun get2 :: "array2 \<Rightarrow> nat \<Rightarrow> nat \<Rightarrow> scalar" where
  "get2 (Array2 n d buf) i j = buf ! (i * d + j)"

fun get3 :: "array3 \<Rightarrow> nat \<Rightarrow> nat \<Rightarrow> nat \<Rightarrow> scalar" where
  "get3 (Array3 s n d buf) i j k = buf ! ((i * n + j) * d + k)"

text \<open>An array is well formed when its buffer holds exactly the entries of its shape.\<close>

fun wf_array :: "ndarray \<Rightarrow> bool" where
  "wf_array (Rank2 (Array2 n d buf)) = (length buf = n * d)"
| "wf_array (Rank3 (Array3 s n d buf)) = (length buf = s * n * d)"

text \<open>A fresh array of a given shape, filled from its entries by index.\<close>

definition mk2 :: "nat \<Rightarrow> nat \<Rightarrow> (nat \<Rightarrow> nat \<Rightarrow> scalar) \<Rightarrow> array2" where
  "mk2 n d f = Array2 n d (map (\<lambda>p. f (p div d) (p mod d)) [0..<n * d])"

definition mk3 :: "nat \<Rightarrow> nat \<Rightarrow> nat \<Rightarrow> (nat \<Rightarrow> nat \<Rightarrow> nat \<Rightarrow> scalar) \<Rightarrow> array3" where
  "mk3 s n d f =
     Array3 s n d (map (\<lambda>p. f (p div (n * d)) ((p div d) mod n) (p mod d)) [0..<s * n * d])"

text \<open>\<open>a.T\<close> reverses the axes.\<close>

fun transpose_array :: "ndarray \<Rightarrow> ndarray" where
  "transpose_array (Rank2 (Array2 n d buf)) =
     Rank2 (mk2 d n (\<lambda>i j. get2 (Array2 n d buf) j i))"
| "transpose_array (Rank3 (Array3 s n d buf)) =
     Rank3 (mk3 d n s (\<lambda>i j k. get3 (Array3 s n d buf) k j i))"

text \<open>
  \<open>np.dot(a, b)\<close> for a matrix \<open>a\<close>: the sum over the last axis of \<open>a\<close> and the
  second-to-last axis of \<open>b\<close>, \<open>ValueError\<close> when the two extents differ.
\<close>

fun np_dot :: "array2 \<Rightarrow> ndarray \<Rightarrow> error + ndarray" where
  "np_dot (Array2 a b A) (Rank2 (Array2 p q B)) =
     (if b \<noteq> p then Inl ValueError
      else Inr (Rank2 (mk2 a q
        (\<lambda>i j. fsum (\<lambda>c. get2 (Array2 a b A) i c * get2 (Array2 p q B) c j) b))))"
| "np_dot (Array2 a b A) (Rank3 (Array3 p q r B)) =
     (if b \<noteq> q then Inl ValueError
      else Inr (Rank3 (mk3 a p r
        (\<lambda>i k m. fsum (\<lambda>c. get2 (Array2 a b A) i c * get3 (Array3 p q r B) k c m) b))))"

text \<open>\<open>a[0]\<close> for a collection of matrices: its first matrix.\<close>

fun first_matrix :: "array3 \<Rightarrow> array2" where
  "first_matrix (Array3 s n d buf) = Array2 n d (take (n * d) buf)"

text \<open>
  \<open>np.einsum\<close> for the two subscript strings of the source. An operand whose rank is
  not the number of its subscripts raises \<open>ValueError\<close>. The extents that carry one
  label must agree, except that an extent of one is broadcast against the other
  operand's; otherwise \<open>ValueError\<close>. The \<open>optimize\<close> flag selects the contraction
  order only and does not change the exact value.
\<close>

definition label_ok :: "nat \<Rightarrow> nat \<Rightarrow> bool" where
  "label_ok m n = (m = n \<or> m = 1 \<or> n = 1)"

definition label_size :: "nat \<Rightarrow> nat \<Rightarrow> nat" where
  "label_size m n = (if m = 1 then n else m)"

definition label_index :: "nat \<Rightarrow> nat \<Rightarrow> nat" where
  "label_index m i = (if m = 1 then 0 else i)"

fun einsum_ijk_ik_ij :: "ndarray \<Rightarrow> ndarray \<Rightarrow> bool \<Rightarrow> error + ndarray" where
  "einsum_ijk_ik_ij (Rank3 (Array3 m a b A)) (Rank2 (Array2 n d B)) optimize =
     (if label_ok m n \<and> label_ok b d
      then Inr (Rank2 (mk2 (label_size m n) a
        (\<lambda>i j. fsum (\<lambda>k. get3 (Array3 m a b A) (label_index m i) j (label_index b k)
                       * get2 (Array2 n d B) (label_index n i) (label_index d k))
                  (label_size b d))))
      else Inl ValueError)"
| "einsum_ijk_ik_ij _ _ optimize = Inl ValueError"

fun einsum_ikl_ijl_ijk :: "ndarray \<Rightarrow> ndarray \<Rightarrow> bool \<Rightarrow> error + ndarray" where
  "einsum_ikl_ijl_ijk (Rank3 (Array3 m a b A)) (Rank3 (Array3 s n d B)) optimize =
     (if label_ok m s \<and> label_ok b d
      then Inr (Rank3 (mk3 (label_size m s) n a
        (\<lambda>i j k. fsum (\<lambda>l. get3 (Array3 m a b A) (label_index m i) k (label_index b l)
                         * get3 (Array3 s n d B) (label_index s i) j (label_index d l))
                    (label_size b d))))
      else Inl ValueError)"
| "einsum_ikl_ijl_ijk _ _ optimize = Inl ValueError"

section \<open>Rotation application\<close>

text \<open>
  \<open>rotate_vector_collection\<close> of \<open>rotate_vector_collection.py\<close>, for vectors of
  any dimension. The \<open>assert\<close> on the innermost extents comes first. The
  \<open>try\<close>/\<open>except TypeError\<close> around \<open>np.einsum\<close> repeats the call without the
  \<open>optimize\<close> keyword for a numpy that does not know it; both calls contract the
  same operands.
\<close>

definition rotate_vector_collection :: "ndarray \<Rightarrow> ndarray \<Rightarrow> bool \<Rightarrow> error + ndarray" where
  "rotate_vector_collection rotation_matrices vectors optimize =
     (let ndim_rotm = last (shape rotation_matrices);
          ndim_vec = last (shape vectors)
      in if ndim_rotm \<noteq> ndim_vec then Inl (AssertionError [])
         else (case rotation_matrices of
             Rank2 M \<Rightarrow>
               ebind (np_dot M (transpose_array vectors)) (\<lambda>r. Inr (transpose_array r))
           | Rank3 Ms \<Rightarrow>
               if hd (shape rotation_matrices) = 1
               then ebind (np_dot (first_matrix Ms) (transpose_array vectors))
                      (\<lambda>r. Inr (transpose_array r))
               else (case vectors of
                   Rank3 vs \<Rightarrow> einsum_ikl_ijl_ijk rotation_matrices vectors optimize
                 | Rank2 vs \<Rightarrow> einsum_ijk_ik_ij rotation_matrices vectors optimize)))"

text \<open>
  \<open>rotate_vector_collection\<close> of \<open>rotations3d.py\<close>: one matrix is recognised by the
  shape \<open>(3, 3)\<close>; every other argument goes to the index-aligned contraction. There
  is no check of the extents of its own.
\<close>

definition rotations3d_rotate_vector_collection ::
  "ndarray \<Rightarrow> ndarray \<Rightarrow> bool \<Rightarrow> error + ndarray" where
  "rotations3d_rotate_vector_collection rotation_matrices vectors optimize =
     (case rotation_matrices of
        Rank2 M \<Rightarrow>
          if shape rotation_matrices = [3, 3]
          then ebind (np_dot M (transpose_array vectors)) (\<lambda>r. Inr (transpose_array r))
          else einsum_ijk_ik_ij rotation_matrices vectors optimize
      | Rank3 Ms \<Rightarrow> einsum_ijk_ik_ij rotation_matrices vectors optimize)"

section \<open>Three-dimensional vectors and matrices\<close>

text \<open>
  The functions of \<open>rotations3d.py\<close> are documented on arrays of shape \<open>(npts, 3)\<close>,
  \<open>(npts,)\<close> and \<open>(npts, 3, 3)\<close>: collections of 3-vectors, of scalars and of
  3-by-3 matrices (a matrix is the triple of its rows). Components are read and written
  by the index literals 0, 1, 2 of the source.
\<close>

type_synonym vec3 = "scalar \<times> scalar \<times> scalar"

type_synonym mat3 = "vec3 \<times> vec3 \<times> vec3"

fun tget :: "'a \<times> 'a \<times> 'a \<Rightarrow> nat \<Rightarrow> 'a" where
  "tget (a, b, c) i = (if i = 0 then a else if i = 1 then b else c)"

fun tset :: "'a \<times> 'a \<times> 'a \<Rightarrow> nat \<Rightarrow> 'a \<Rightarrow> 'a \<times> 'a \<times> 'a" where
  "tset (a, b, c) i x = (if i = 0 then (x, b, c) else if i = 1 then (a, x, c) else (a, b, x))"

definition mget :: "mat3 \<Rightarrow> nat \<Rightarrow> nat \<Rightarrow> scalar" where
  "mget M r c = tget (tget M r) c"

definition mset :: "mat3 \<Rightarrow> nat \<Rightarrow> nat \<Rightarrow> scalar \<Rightarrow> mat3" where
  "mset M r c x = tset M r (tset (tget M r) c x)"

text \<open>The same collections as shaped arrays, for the rotation-application routine.\<close>

definition array_of_vecs :: "vec3 list \<Rightarrow> ndarray" where
  "array_of_vecs vs = Rank2 (mk2 (length vs) 3 (\<lambda>i j. tget (vs ! i) j))"

definition array_of_mats :: "mat3 list \<Rightarrow> ndarray" where
  "array_of_mats Ms = Rank3 (mk3 (length Ms) 3 3 (\<lambda>i r c. mget (Ms ! i) r c))"

fun vecs_of_array :: "ndarray \<Rightarrow> vec3 list" where
  "vecs_of_array (Rank2 (Array2 n d buf)) =
     map (\<lambda>i. (get2 (Array2 n d buf) i 0, get2 (Array2 n d buf) i 1, get2 (Array2 n d buf) i 2))
       [0..<n]"
| "vecs_of_array (Rank3 A) = []"

subsection \<open>Vector utilities\<close>

text \<open>
  Modelled from the spec: the module \<open>vector_utilities\<close> (\<open>elementwise_dot\<close>,
  \<open>elementwise_norm\<close>, \<open>normalized_vectors\<close>, \<open>angles_between_list_of_vectors\<close>) is
  imported by both source files and is not among them. The spec gives its contract:
  the per-index dot product, the per-index magnitude, the per-index unit vector
  (undefined/NaN for zero vectors) and the per-index angle in \<open>[0, \<pi>]\<close>. In exact
  arithmetic the angle between two vectors is the arc cosine of the dot product of
  their unit vectors, whatever formulation computes it. Each function is given by its
  action at one index (\<open>dot3\<close>, \<open>norm3\<close>, \<open>normalize3\<close> with its quotient
  \<open>unit_component\<close>, \<open>angle3\<close>) and lifted to collections; collections of unequal
  length follow numpy's broadcasting rule.
\<close>

fun dot3 :: "vec3 \<Rightarrow> vec3 \<Rightarrow> scalar" where
  "dot3 (a, b, c) (x, y, z) = a * x + b * y + c * z"

definition norm3 :: "vec3 \<Rightarrow> scalar" where
  "norm3 v = np_sqrt (dot3 v v)"

fun unit_component :: "scalar \<Rightarrow> scalar \<Rightarrow> scalar" where
  "unit_component (Val a) (Val n) = (if n = 0 then NaN else Val (a / n))"
| "unit_component _ _ = NaN"

fun normalize3 :: "vec3 \<Rightarrow> vec3" where
  "normalize3 (a, b, c) =
     (let n = norm3 (a, b, c) in (unit_component a n, unit_component b n, unit_component c n))"

definition angle3 :: "vec3 \<Rightarrow> vec3 \<Rightarrow> scalar" where
  "angle3 u v = np_arccos (dot3 (normalize3 u) (normalize3 v))"

definition elementwise_dot :: "vec3 list \<Rightarrow> vec3 list \<Rightarrow> error + scalar list" where
  "elementwise_dot x y = ebind (broadcast x y) (\<lambda>ps. Inr (map (\<lambda>(u, v). dot3 u v) ps))"

definition elementwise_norm :: "vec3 list \<Rightarrow> scalar list" where
  "elementwise_norm x = map norm3 x"

definition normalized_vectors :: "vec3 list \<Rightarrow> vec3 list" where
  "normalized_vectors vectors = map normalize3 vectors"

definition angles_between_list_of_vectors :: "vec3 list \<Rightarrow> vec3 list \<Rightarrow> error + scalar list" where
  "angles_between_list_of_vectors v0 v1 =
     ebind (broadcast v0 v1) (\<lambda>ps. Inr (map (\<lambda>(u, v). angle3 u v) ps))"

subsection \<open>numpy operations on collections\<close>

fun cross3 :: "vec3 \<Rightarrow> vec3 \<Rightarrow> vec3" where
  "cross3 (a, b, c) (x, y, z) = (b * z - c * y, c * x - a * z, a * y - b * x)"

definition np_cross :: "vec3 list \<Rightarrow> vec3 list \<Rightarrow> error + vec3 list" where
  "np_cross x y = ebind (broadcast x y) (\<lambda>ps. Inr (map (\<lambda>(u, v). cross3 u v) ps))"

definition np_multiply :: "scalar list \<Rightarrow> scalar list \<Rightarrow> error + scalar list" where
  "np_multiply p q = ebind (broadcast p q) (\<lambda>ps. Inr (map (\<lambda>(a, b). a * b) ps))"

definition zero3 :: mat3 where
  "zero3 = ((Val 0, Val 0, Val 0), (Val 0, Val 0, Val 0), (Val 0, Val 0, Val 0))"

definition zeros3 :: "nat \<Rightarrow> mat3 list" where
  "zeros3 npts = replicate npts zero3"

text \<open>
  \<open>R[:, r, c] = xs\<close>: the values are written index by index; one value is broadcast
  to every index; any other length raises \<open>ValueError\<close>.
\<close>

definition assign_entries ::
  "mat3 list \<Rightarrow> nat \<Rightarrow> nat \<Rightarrow> scalar list \<Rightarrow> error + mat3 list" where
  "assign_entries R r c xs =
     (if length xs = length R then Inr (map (\<lambda>(M, x). mset M r c x) (zip R xs))
      else if length xs = 1 then Inr (map (\<lambda>M. mset M r c (hd xs)) R)
      else Inl ValueError)"

text \<open>\<open>d[..., None] * d[:, None, :]\<close>: the outer product of each vector with itself.\<close>

definition outer3 :: "vec3 \<Rightarrow> mat3" where
  "outer3 d =
     ((tget d 0 * tget d 0, tget d 0 * tget d 1, tget d 0 * tget d 2),
      (tget d 1 * tget d 0, tget d 1 * tget d 1, tget d 1 * tget d 2),
      (tget d 2 * tget d 0, tget d 2 * tget d 1, tget d 2 * tget d 2))"

definition vmap :: "(scalar \<Rightarrow> scalar) \<Rightarrow> vec3 \<Rightarrow> vec3" where
  "vmap f v = (f (tget v 0), f (tget v 1), f (tget v 2))"

definition mmap :: "(scalar \<Rightarrow> scalar) \<Rightarrow> mat3 \<Rightarrow> mat3" where
  "mmap f M = (vmap f (tget M 0), vmap f (tget M 1), vmap f (tget M 2))"

definition vadd :: "vec3 \<Rightarrow> vec3 \<Rightarrow> vec3" where
  "vadd u v = (tget u 0 + tget v 0, tget u 1 + tget v 1, tget u 2 + tget v 2)"

definition madd :: "mat3 \<Rightarrow> mat3 \<Rightarrow> mat3" where
  "madd A B = (vadd (tget A 0) (tget B 0), vadd (tget A 1) (tget B 1), vadd (tget A 2) (tget B 2))"

text \<open>
  \<open>R[:, rows, cols] -= d\<close> and \<open>+=\<close> for one index of the collection: column \<open>j\<close> of
  \<open>d\<close> updates the entry \<open>(rows[j], cols[j])\<close>. The index lists of the source name
  three different entries.
\<close>

definition fancy_update ::
  "(scalar \<Rightarrow> scalar \<Rightarrow> scalar) \<Rightarrow> nat list \<Rightarrow> nat list \<Rightarrow> mat3 \<Rightarrow> vec3 \<Rightarrow> mat3" where
  "fancy_update f rows cols M d =
     foldl (\<lambda>M j. mset M (rows ! j) (cols ! j) (f (mget M (rows ! j) (cols ! j)) (tget d j)))
       M [0, 1, 2]"

section \<open>The functions of rotations3d.py\<close>

text \<open>
  \<open>rotation_matrices_from_angles\<close>. The three slice assignments into \<open>R1\<close> accept
  \<open>cosa\<close> of the length of \<open>directions\<close> or of length one; the \<open>reshape\<close> of the
  nine-fold repeated \<open>1 - cosa\<close> to \<open>(npts, 3, 3)\<close> raises \<open>ValueError\<close> unless the
  lengths agree. \<open>directions\<close> is rebound to a fresh normalised array before it is
  scaled in place, so the caller's array is not touched.
\<close>

definition rotation_matrices_from_angles :: "scalar list \<Rightarrow> vec3 list \<Rightarrow> error + mat3 list" where
  "rotation_matrices_from_angles angles directions =
     (let directions = normalized_vectors directions;
          npts = length directions;
          sina = map np_sin angles;
          cosa = map np_cos angles
      in ebind (assign_entries (zeros3 npts) 0 0 cosa) (\<lambda>R1.
         ebind (assign_entries R1 1 1 cosa) (\<lambda>R1.
         ebind (assign_entries R1 2 2 cosa) (\<lambda>R1.
         let R2 = map outer3 directions
         in if 9 * length cosa \<noteq> npts * 3 * 3 then Inl ValueError
            else
              let R2 = map (\<lambda>(M, c). mmap (\<lambda>x. x * (Val 1 - c)) M) (zip R2 cosa);
                  directions = map (\<lambda>(d, s). vmap (\<lambda>x. x * s) d) (zip directions sina);
                  R3 = zeros3 npts;
                  R3 = map (\<lambda>(M, d). fancy_update (-) [1, 2, 0] [2, 0, 1] M d) (zip R3 directions);
                  R3 = map (\<lambda>(M, d). fancy_update (+) [2, 0, 1] [1, 2, 0] M d) (zip R3 directions)
              in Inr (map (\<lambda>((A, B), C). madd (madd A B) C) (zip (zip R1 R2) R3))))))"

definition vectors_normal_to_planes :: "vec3 list \<Rightarrow> vec3 list \<Rightarrow> error + vec3 list" where
  "vectors_normal_to_planes x y = ebind (np_cross x y) (\<lambda>c. Inr (normalized_vectors c))"

text \<open>
  \<open>rotation_matrices_from_vectors\<close>. \<open>directions[mask] = v0[mask]\<close> indexes \<open>v0\<close> with
  a mask of the length of \<open>directions\<close>: numpy raises \<open>IndexError\<close> when the two
  lengths differ (a single \<open>v0\<close> broadcast against many \<open>v1\<close>).
\<close>

definition rotation_matrices_from_vectors :: "vec3 list \<Rightarrow> vec3 list \<Rightarrow> error + mat3 list" where
  "rotation_matrices_from_vectors v0 v1 =
     (let v0 = normalized_vectors v0;
          v1 = normalized_vectors v1
      in ebind (vectors_normal_to_planes v0 v1) (\<lambda>directions.
         ebind (angles_between_list_of_vectors v0 v1) (\<lambda>angles.
         let mask_a = map (\<lambda>d. np_isnan (tget d 0) \<or> np_isnan (tget d 1) \<or> np_isnan (tget d 2))
                        directions;
             mask_b = map (\<lambda>a. equal_to a 0) angles;
             mask = map (\<lambda>(a, b). a \<or> b) (zip mask_a mask_b)
         in if length mask \<noteq> length v0 then Inl IndexError
            else
              let directions = map (\<lambda>(m, d, v). if m then v else d) (zip mask (zip directions v0))
              in rotation_matrices_from_angles angles directions)))"

text \<open>\<open>rotation_matrices_from_basis\<close>: nine dot products, then nine slice assignments.\<close>

definition rotation_matrices_from_basis ::
  "vec3 list \<Rightarrow> vec3 list \<Rightarrow> vec3 list \<Rightarrow> error + mat3 list" where
  "rotation_matrices_from_basis ux uy uz =
     (let N = length ux;
          ex = replicate N (Val 1, Val 0, Val 0);
          ey = replicate N (Val 0, Val 1, Val 0);
          ez = replicate N (Val 0, Val 0, Val 1);
          ux = normalized_vectors ux;
          uy = normalized_vectors uy;
          uz = normalized_vectors uz
      in ebind (elementwise_dot ex ux) (\<lambda>r_11.
         ebind (elementwise_dot ex uy) (\<lambda>r_12.
         ebind (elementwise_dot ex uz) (\<lambda>r_13.
         ebind (elementwise_dot ey ux) (\<lambda>r_21.
         ebind (elementwise_dot ey uy) (\<lambda>r_22.
         ebind (elementwise_dot ey uz) (\<lambda>r_23.
         ebind (elementwise_dot ez ux) (\<lambda>r_31.
         ebind (elementwise_dot ez uy) (\<lambda>r_32.
         ebind (elementwise_dot ez uz) (\<lambda>r_33.
         ebind (assign_entries (zeros3 N) 0 0 r_11) (\<lambda>r.
         ebind (assign_entries r 0 1 r_12) (\<lambda>r.
         ebind (assign_entries r 0 2 r_13) (\<lambda>r.
         ebind (assign_entries r 1 0 r_21) (\<lambda>r.
         ebind (assign_entries r 1 1 r_22) (\<lambda>r.
         ebind (assign_entries r 1 2 r_23) (\<lambda>r.
         ebind (assign_entries r 2 0 r_31) (\<lambda>r.
         ebind (assign_entries r 2 1 r_32) (\<lambda>r.
         ebind (assign_entries r 2 2 r_33) (\<lambda>r. Inr r)))))))))))))))))))"

text \<open>
  \<open>vectors_between_list_of_vectors\<close>: the two \<open>assert\<close> statements on \<open>p\<close> come first,
  each with its message.
\<close>

definition vectors_between_list_of_vectors ::
  "vec3 list \<Rightarrow> vec3 list \<Rightarrow> scalar list \<Rightarrow> error + vec3 list" where
  "vectors_between_list_of_vectors x y p =
     (if \<not> list_all (\<lambda>a. greater_equal a 0) p
      then Inl (AssertionError ''All values of p must be non-negative'')
      else if \<not> list_all (\<lambda>a. less_equal a 1) p
      then Inl (AssertionError ''No value of p can exceed unity'')
      else
        ebind (vectors_normal_to_planes x y) (\<lambda>z.
        ebind (angles_between_list_of_vectors x y) (\<lambda>theta.
        ebind (np_multiply p theta) (\<lambda>angles.
        ebind (rotation_matrices_from_angles angles z) (\<lambda>rotation_matrices.
        ebind (rotations3d_rotate_vector_collection
                 (array_of_mats rotation_matrices) (array_of_vecs x) False) (\<lambda>r.
        Inr (normalized_vectors (vecs_of_array r))))))))"

text \<open>
  \<open>project_onto_plane\<close>. Its last line reads the name \<open>x\<close>. The names bound in the
  function are \<open>x1\<close>, \<open>x2\<close>, \<open>n\<close> and \<open>d\<close>, and neither the module nor the builtins
  bind \<open>x\<close>; Python looks a name up when the expression is evaluated, left operand
  first, and raises \<open>NameError\<close> for one that is not bound. The scope below lists the
  bound names that hold collections of vectors.
\<close>

definition lookup_name :: "(string \<times> 'a) list \<Rightarrow> string \<Rightarrow> error + 'a" where
  "lookup_name scope name =
     (case map_of scope name of None \<Rightarrow> Inl (NameError name) | Some v \<Rightarrow> Inr v)"

definition vsub :: "vec3 \<Rightarrow> vec3 \<Rightarrow> vec3" where
  "vsub u v = (tget u 0 - tget v 0, tget u 1 - tget v 1, tget u 2 - tget v 2)"

definition project_onto_plane :: "vec3 list \<Rightarrow> vec3 list \<Rightarrow> error + vec3 list" where
  "project_onto_plane x1 x2 =
     (let n = normalized_vectors x2
      in ebind (elementwise_dot x1 n) (\<lambda>d.
         ebind (lookup_name [(''x1'', x1), (''x2'', x2), (''n'', n)] ''x'') (\<lambda>x.
         ebind (broadcast d n) (\<lambda>dn.
         ebind (broadcast x (map (\<lambda>(s, v). vmap (\<lambda>c. s * c) v) dn)) (\<lambda>ps.
         Inr (map (\<lambda>(u, v). vsub u v) ps))))))"

section \<open>Specification predicates\<close>

text \<open>
  ``The collection whose \<open>i\<close>-th element equals \<open>M \<sqdot> v[i]\<close>'': a result is a
  well-formed collection of as many \<open>d\<close>-vectors as \<open>V\<close> holds, and entry \<open>r\<close> of its
  \<open>i\<close>-th vector is the sum over \<open>c\<close> of \<open>M[r][c] * V[i][c]\<close>. The matrix is given by
  its entries.
\<close>

definition applies_to_every_vector ::
  "(nat \<Rightarrow> nat \<Rightarrow> scalar) \<Rightarrow> nat \<Rightarrow> array2 \<Rightarrow> error + ndarray \<Rightarrow> bool" where
  "applies_to_every_vector M d V res =
     (case V of Array2 n d' B \<Rightarrow>
        (case res of
           Inr (Rank2 out) \<Rightarrow>
             shape (Rank2 out) = [n, d] \<and> wf_array (Rank2 out) \<and>
             (\<forall>i<n. \<forall>r<d. get2 out i r = fsum (\<lambda>c. M r c * get2 V i c) d)
         | _ \<Rightarrow> False))"

text \<open>
  What \<open>rotation_matrices_from_angles\<close> computes at one index of its collections: the
  steps of the function on one angle and one axis.
\<close>

definition rotation_matrix_from_angle :: "scalar \<Rightarrow> vec3 \<Rightarrow> mat3" where
  "rotation_matrix_from_angle angle direction =
     (let k = normalize3 direction;
          c = np_cos angle;
          s = np_sin angle;
          R1 = mset (mset (mset zero3 0 0 c) 1 1 c) 2 2 c;
          R2 = mmap (\<lambda>x. x * (Val 1 - c)) (outer3 k);
          d = vmap (\<lambda>x. x * s) k;
          R3 = fancy_update (+) [2, 0, 1] [1, 2, 0]
                 (fancy_update (-) [1, 2, 0] [2, 0, 1] zero3 d) d
      in madd (madd R1 R2) R3)"

text \<open>
  Rodrigues' formula in the words of the specification, on real numbers: the unit
  vector of an axis, the skew-symmetric cross-product matrix of a vector (the matrix
  whose product with \<open>v\<close> is the cross product \<open>k \<times> v\<close>), and the entry in row \<open>r\<close>
  and column \<open>c\<close> of the sum of the three terms.
\<close>

type_synonym rvec = "real \<times> real \<times> real"

definition unit_axis :: "rvec \<Rightarrow> rvec" where
  "unit_axis v =
     (case v of (x, y, z) \<Rightarrow>
        (x / sqrt (x\<^sup>2 + y\<^sup>2 + z\<^sup>2), y / sqrt (x\<^sup>2 + y\<^sup>2 + z\<^sup>2),
         z / sqrt (x\<^sup>2 + y\<^sup>2 + z\<^sup>2)))"

definition skew_entry :: "rvec \<Rightarrow> nat \<Rightarrow> nat \<Rightarrow> real" where
  "skew_entry k r c =
     tget (tget ((0, - tget k 2, tget k 1),
                 (tget k 2, 0, - tget k 0),
                 (- tget k 1, tget k 0, 0)) r) c"

definition rodrigues_entry :: "real \<Rightarrow> rvec \<Rightarrow> nat \<Rightarrow> nat \<Rightarrow> real" where
  "rodrigues_entry a k r c =
     cos a * (if r = c then 1 else 0) + (1 - cos a) * (tget k r * tget k c)
       + sin a * skew_entry k r c"

fun cross_real :: "rvec \<Rightarrow> rvec \<Rightarrow> rvec" where
  "cross_real (a, b, c) (x, y, z) = (b * z - c * y, c * x - a * z, a * y - b * x)"

text \<open>The matrix of Rodrigues' formula for the angle \<open>a\<close> and the axis \<open>(k0, k1, k2)\<close>.\<close>

definition rodrigues :: "real \<Rightarrow> real \<Rightarrow> real \<Rightarrow> real \<Rightarrow> mat3" where
  "rodrigues a k0 k1 k2 =
    ((Val (cos a + k0 * k0 * (1 - cos a)), Val (k0 * k1 * (1 - cos a) - k2 * sin a),
      Val (k0 * k2 * (1 - cos a) + k1 * sin a)),
     (Val (k1 * k0 * (1 - cos a) + k2 * sin a), Val (cos a + k1 * k1 * (1 - cos a)),
      Val (k1 * k2 * (1 - cos a) - k0 * sin a)),
     (Val (k2 * k0 * (1 - cos a) - k1 * sin a), Val (k2 * k1 * (1 - cos a) + k0 * sin a),
      Val (cos a + k2 * k2 * (1 - cos a))))"

text \<open>
  Products of 3-by-3 matrices, the transpose, the determinant and the identity, in the
  arithmetic of the entries: the words of the orthonormality invariant.
\<close>

definition mtranspose :: "mat3 \<Rightarrow> mat3" where
  "mtranspose M =
     ((mget M 0 0, mget M 1 0, mget M 2 0),
      (mget M 0 1, mget M 1 1, mget M 2 1),
      (mget M 0 2, mget M 1 2, mget M 2 2))"

definition mmul_entry :: "mat3 \<Rightarrow> mat3 \<Rightarrow> nat \<Rightarrow> nat \<Rightarrow> scalar" where
  "mmul_entry A B r c = mget A r 0 * mget B 0 c + mget A r 1 * mget B 1 c + mget A r 2 * mget B 2 c"

definition mmul :: "mat3 \<Rightarrow> mat3 \<Rightarrow> mat3" where
  "mmul A B =
     ((mmul_entry A B 0 0, mmul_entry A B 0 1, mmul_entry A B 0 2),
      (mmul_entry A B 1 0, mmul_entry A B 1 1, mmul_entry A B 1 2),
      (mmul_entry A B 2 0, mmul_entry A B 2 1, mmul_entry A B 2 2))"

definition det3 :: "mat3 \<Rightarrow> scalar" where
  "det3 M =
     mget M 0 0 * (mget M 1 1 * mget M 2 2 - mget M 1 2 * mget M 2 1)
     - mget M 0 1 * (mget M 1 0 * mget M 2 2 - mget M 1 2 * mget M 2 0)
     + mget M 0 2 * (mget M 1 0 * mget M 2 1 - mget M 1 1 * mget M 2 0)"

definition identity3 :: mat3 where
  "identity3 = ((Val 1, Val 0, Val 0), (Val 0, Val 1, Val 0), (Val 0, Val 0, Val 1))"

definition standard_basis :: "nat \<Rightarrow> vec3" where
  "standard_basis r = tget ((Val 1, Val 0, Val 0), (Val 0, Val 1, Val 0), (Val 0, Val 0, Val 1)) r"

text \<open>
  What \<open>rotation_matrices_from_vectors\<close> computes at one index of its collections: the
  steps of the function on one source vector and one target vector.
\<close>

definition rotation_matrix_from_vectors :: "vec3 \<Rightarrow> vec3 \<Rightarrow> mat3" where
  "rotation_matrix_from_vectors u0 u1 =
     (let v0 = normalize3 u0;
          v1 = normalize3 u1;
          direction = normalize3 (cross3 v0 v1);
          angle = angle3 v0 v1;
          mask = ((np_isnan (tget direction 0) \<or> np_isnan (tget direction 1)
                    \<or> np_isnan (tget direction 2)) \<or> equal_to angle 0);
          direction = (if mask then v0 else direction)
      in rotation_matrix_from_angle angle direction)"

text \<open>Vectors of real numbers: as entries of an array, their dot product and length.\<close>

fun vec_of :: "rvec \<Rightarrow> vec3" where
  "vec_of (x, y, z) = (Val x, Val y, Val z)"

fun dot_real :: "rvec \<Rightarrow> rvec \<Rightarrow> real" where
  "dot_real (a, b, c) (x, y, z) = a * x + b * y + c * z"

definition norm_real :: "rvec \<Rightarrow> real" where
  "norm_real v = sqrt (dot_real v v)"

section \<open>Indexing lemmas for shaped arrays\<close>

lemma index2_less: "i < n \<Longrightarrow> j < d \<Longrightarrow> i * d + j < n * (d::nat)"
proof -
  assume a: "i < n" "j < d"
  have "i * d + j < i * d + d" using a by simp
  also have "\<dots> = Suc i * d" by simp
  also have "\<dots> \<le> n * d" using a(1) by (intro mult_le_mono1) simp
  finally show ?thesis .
qed

lemma get2_mk2: "i < n \<Longrightarrow> j < d \<Longrightarrow> get2 (mk2 n d f) i j = f i j"
  by (simp add: mk2_def index2_less)

lemma index3_less:
  assumes "i < s" "j < n" "k < d"
  shows "(i * n + j) * d + k < s * n * (d::nat)"
  using index2_less[OF index2_less[OF assms(1,2)] assms(3)] .

lemma get3_mk3:
  assumes "i < s" "j < n" "k < d"
  shows "get3 (mk3 s n d f) i j k = f i j k"
proof -
  let ?p = "(i * n + j) * d + k"
  have 1: "?p div d = i * n + j" using assms by simp
  have 2: "?p mod d = k" using assms by simp
  have a: "?p = i * (n * d) + (j * d + k)" by (simp add: algebra_simps)
  have b: "j * d + k < n * d" using assms by (simp add: index2_less)
  have c: "(i * m + q) div m = i" if "q < m" for q m :: nat using that by simp
  have 3: "?p div (n * d) = i" unfolding a using b by (rule c)
  show ?thesis
    using index3_less[OF assms] assms by (simp add: mk3_def 1 2 3)
qed

lemma mk2_cong:
  assumes "\<And>i j. i < n \<Longrightarrow> j < d \<Longrightarrow> f i j = g i j"
  shows "mk2 n d f = mk2 n d g"
proof -
  have "f (p div d) (p mod d) = g (p div d) (p mod d)" if "p < n * d" for p
  proof -
    have "0 < d" using that by (cases d) auto
    moreover have "p div d < n" using that by (simp add: less_mult_imp_div_less)
    ultimately show ?thesis by (intro assms) auto
  qed
  then show ?thesis by (simp add: mk2_def)
qed

lemma fsum_cong: "(\<And>k. k < n \<Longrightarrow> f k = g k) \<Longrightarrow> fsum f n = fsum g n"
  by (induction n) auto

section \<open>Interpolation fractions outside the unit interval\<close>

text \<open>
  C8. Whenever some entry of \<open>p\<close> is a number below 0 or above 1,
  \<open>vectors_between_list_of_vectors\<close> raises the \<open>AssertionError\<close> of one of its two
  range checks and returns no vectors: the message of the first check when some entry
  fails it, otherwise the message of the second.
\<close>

theorem vectors_between_out_of_range:
  assumes "i < length p" and "p ! i = Val a" and "a < 0 \<or> 1 < a"
  shows "vectors_between_list_of_vectors x y p =
     Inl (AssertionError (if list_all (\<lambda>a. greater_equal a 0) p
        then ''No value of p can exceed unity''
        else ''All values of p must be non-negative''))"
proof -
  have "\<not> (greater_equal (p ! i) 0 \<and> less_equal (p ! i) 1)"
    using assms by auto
  then have "\<not> list_all (\<lambda>a. greater_equal a 0) p \<or> \<not> list_all (\<lambda>a. less_equal a 1) p"
    using assms(1) by (auto simp: list_all_length)
  then show ?thesis
    by (auto simp: vectors_between_list_of_vectors_def)
qed

theorem vectors_between_out_of_range_witness:
  "vectors_between_list_of_vectors
     [(Val 1, Val 0, Val 0), (Val 1, Val 0, Val 0)]
     [(Val 0, Val 1, Val 0), (Val 0, Val 1, Val 0)] [Val (1 / 2), Val (3 / 2)] =
   Inl (AssertionError ''No value of p can exceed unity'')
   \<and> vectors_between_list_of_vectors
     [(Val 1, Val 0, Val 0)] [(Val 0, Val 1, Val 0)] [Val (- 1 / 10)] =
   Inl (AssertionError ''All values of p must be non-negative'')"
  using vectors_between_out_of_range [of 1 "[Val (1 / 2), Val (3 / 2)]" "3 / 2"
      "[(Val 1, Val 0, Val 0), (Val 1, Val 0, Val 0)]"
      "[(Val 0, Val 1, Val 0), (Val 0, Val 1, Val 0)]"]
    vectors_between_out_of_range [of 0 "[Val (- 1 / 10)]" "- 1 / 10"
      "[(Val 1, Val 0, Val 0)]" "[(Val 0, Val 1, Val 0)]"]
  by simp

section \<open>Projection onto a plane\<close>

text \<open>
  C2. The claim describes \<open>x1[i] - (x1[i] \<sqdot> n) n\<close>. The function as written never
  returns it: for one vector \<open>(1, 0, 0)\<close> and the normal \<open>(0, 0, 1)\<close> the call
  raises \<open>NameError\<close> for the unbound name \<open>x\<close>.
\<close>

theorem project_onto_plane_raises:
  "project_onto_plane [(Val 1, Val 0, Val 0)] [(Val 0, Val 0, Val 1)] = Inl (NameError ''x'')"
  by (simp add: project_onto_plane_def Let_def ebind_def lookup_name_def elementwise_dot_def
      broadcast_def normalized_vectors_def)

text \<open>No call of \<open>project_onto_plane\<close> returns a collection of vectors.\<close>

lemma project_onto_plane_never_returns:
  "project_onto_plane x1 x2 = Inl ValueError \<or> project_onto_plane x1 x2 = Inl (NameError ''x'')"
  by (auto simp: project_onto_plane_def Let_def ebind_def lookup_name_def elementwise_dot_def
      broadcast_def split: sum.splits)

section \<open>Applying one matrix, and the index-aligned contraction\<close>

lemma transpose_mk2:
  "transpose_array (Rank2 (mk2 n d f)) = Rank2 (mk2 d n (\<lambda>i j. get2 (mk2 n d f) j i))"
  by (simp add: mk2_def)

lemma np_dot_mk2:
  "np_dot (Array2 a b A) (Rank2 (mk2 p q g)) =
     (if b \<noteq> p then Inl ValueError
      else Inr (Rank2 (mk2 a q (\<lambda>i j. fsum (\<lambda>c. get2 (Array2 a b A) i c * get2 (mk2 p q g) c j) b))))"
  by (simp add: mk2_def)

lemma dot_transposed:
  "ebind (np_dot (Array2 a b A) (transpose_array (Rank2 (Array2 n b B))))
      (\<lambda>r. Inr (transpose_array r)) =
   Inr (Rank2 (mk2 n a (\<lambda>i r. fsum (\<lambda>c. get2 (Array2 a b A) r c * get2 (Array2 n b B) i c) b)))"
proof -
  let ?M = "Array2 a b A" and ?V = "Array2 n b B"
  have t: "transpose_array (Rank2 ?V) = Rank2 (mk2 b n (\<lambda>i j. get2 ?V j i))"
    by simp
  have "mk2 a n (\<lambda>i j. fsum (\<lambda>c. get2 ?M i c * get2 (mk2 b n (\<lambda>i j. get2 ?V j i)) c j) b)
      = mk2 a n (\<lambda>i j. fsum (\<lambda>c. get2 ?M i c * get2 ?V j c) b)"
    by (intro mk2_cong fsum_cong) (simp add: get2_mk2)
  then have d: "np_dot ?M (transpose_array (Rank2 ?V)) =
      Inr (Rank2 (mk2 a n (\<lambda>i j. fsum (\<lambda>c. get2 ?M i c * get2 ?V j c) b)))"
    unfolding t np_dot_mk2 by simp
  have "mk2 n a (\<lambda>i j. get2 (mk2 a n (\<lambda>i j. fsum (\<lambda>c. get2 ?M i c * get2 ?V j c) b)) j i)
      = mk2 n a (\<lambda>i r. fsum (\<lambda>c. get2 ?M r c * get2 ?V i c) b)"
    by (intro mk2_cong) (simp add: get2_mk2)
  then show ?thesis
    unfolding d ebind_def by (simp add: transpose_mk2)
qed

lemma wf_mk2: "wf_array (Rank2 (mk2 n d f))" by (simp add: mk2_def)
lemma shape_mk2: "shape (Rank2 (mk2 n d f)) = [n, d]" by (simp add: mk2_def)

lemma einsum_aligned:
  "einsum_ijk_ik_ij (Rank3 (Array3 m a b A)) (Rank2 (Array2 n b B)) optimize =
    (if label_ok m n then Inr (Rank2 (mk2 (label_size m n) a
        (\<lambda>i j. fsum (\<lambda>k. get3 (Array3 m a b A) (label_index m i) j k
                       * get2 (Array2 n b B) (label_index n i) k) b))) else Inl ValueError)"
proof -
  have "mk2 (label_size m n) a
        (\<lambda>i j. fsum (\<lambda>k. get3 (Array3 m a b A) (label_index m i) j (label_index b k)
                       * get2 (Array2 n b B) (label_index n i) (label_index b k))
                  (label_size b b)) = mk2 (label_size m n) a
        (\<lambda>i j. fsum (\<lambda>k. get3 (Array3 m a b A) (label_index m i) j k
                       * get2 (Array2 n b B) (label_index n i) k) b)"
    by (intro mk2_cong) (auto simp: label_size_def label_index_def intro!: fsum_cong)
  then show ?thesis by (simp add: label_ok_def)
qed

lemma rotate_first_matrix:
  "rotate_vector_collection (Rank3 (Array3 1 a b A)) (Rank2 (Array2 n b B)) optimize =
   Inr (Rank2 (mk2 n a (\<lambda>i r. fsum (\<lambda>c. get3 (Array3 1 a b A) 0 r c * get2 (Array2 n b B) i c) b)))"
proof -
  have "mk2 n a (\<lambda>i r. fsum (\<lambda>c. get2 (Array2 a b (take (a * b) A)) r c * get2 (Array2 n b B) i c) b)
     = mk2 n a (\<lambda>i r. fsum (\<lambda>c. get3 (Array3 1 a b A) 0 r c * get2 (Array2 n b B) i c) b)"
    by (intro mk2_cong fsum_cong) (simp add: index2_less)
  then show ?thesis
  unfolding rotate_vector_collection_def by (simp add: dot_transposed del: transpose_array.simps np_dot.simps)
qed

lemma rotations3d_first_matrix:
  "rotations3d_rotate_vector_collection (Rank3 (Array3 1 a b A)) (Rank2 (Array2 n b B)) optimize =
   Inr (Rank2 (mk2 n a (\<lambda>i r. fsum (\<lambda>c. get3 (Array3 1 a b A) 0 r c * get2 (Array2 n b B) i c) b)))"
proof -
  have "mk2 n a (\<lambda>i j. fsum (\<lambda>k. get3 (Array3 1 a b A) 0 j k * get2 (Array2 n b B) (label_index n i) k) b)
     = mk2 n a (\<lambda>i r. fsum (\<lambda>c. get3 (Array3 1 a b A) 0 r c * get2 (Array2 n b B) i c) b)"
    by (intro mk2_cong) (auto simp: label_index_def)
  then show ?thesis
    unfolding rotations3d_rotate_vector_collection_def
    by (simp add: einsum_aligned label_ok_def label_size_def label_index_def del: einsum_ijk_ik_ij.simps)
qed

lemma einsum_optimize:
  "einsum_ijk_ik_ij R V o1 = einsum_ijk_ik_ij R V o2"
  by (cases "(R, V, o1)" rule: einsum_ijk_ik_ij.cases) auto

lemma implementations_agree:
  assumes "rotations3d_rotate_vector_collection R V o1 = Inr x"
    and "rotate_vector_collection R V o2 = Inr y"
  shows "x = y"
proof (cases R)
  case (Rank2 M)
  obtain p q A where M: "M = Array2 p q A" by (cases M)
  show ?thesis
  proof (cases "p = 3 \<and> q = 3")
    case True
    then show ?thesis
      using assms unfolding Rank2 M rotations3d_rotate_vector_collection_def
        rotate_vector_collection_def
      by (simp del: transpose_array.simps np_dot.simps split: if_splits)
  next
    case False
    then have "rotations3d_rotate_vector_collection R V o1 = Inl ValueError"
      unfolding Rank2 M rotations3d_rotate_vector_collection_def by auto
    then show ?thesis using assms by simp
  qed
next
  case (Rank3 Ms)
  obtain m a b A where Ms: "Ms = Array3 m a b A" by (cases Ms)
  show ?thesis
  proof (cases V)
    case V: (Rank2 W)
    obtain n d B where W: "W = Array2 n d B" by (cases W)
    have bd: "b = d"
      using assms(2) unfolding Rank3 Ms V W rotate_vector_collection_def
      by (simp split: if_splits)
    show ?thesis
    proof (cases "m = 1")
      case True
      show ?thesis
        using assms[unfolded Rank3 Ms V W True bd rotate_first_matrix rotations3d_first_matrix] by simp
    next
      case False
      have "rotate_vector_collection R V o2 = einsum_ijk_ik_ij R V o2"
        unfolding Rank3 Ms V W rotate_vector_collection_def bd using False by simp
      moreover have "rotations3d_rotate_vector_collection R V o1 = einsum_ijk_ik_ij R V o1"
        unfolding Rank3 Ms rotations3d_rotate_vector_collection_def by simp
      ultimately show ?thesis using assms einsum_optimize[of R V o1 o2] by (metis sum.inject(2))
    qed
  next
    case V: (Rank3 W)
    have "rotations3d_rotate_vector_collection R V o1 = Inl ValueError"
      unfolding Rank3 Ms V rotations3d_rotate_vector_collection_def by simp
    then show ?thesis using assms by simp
  qed
qed

lemma rotations3d_aligned:
  "rotations3d_rotate_vector_collection (Rank3 (Array3 n a b A)) (Rank2 (Array2 n b B)) o1
   = Inr (Rank2 (mk2 n a (\<lambda>i j. fsum (\<lambda>k. get3 (Array3 n a b A) i j k * get2 (Array2 n b B) i k) b)))"
proof -
  have "mk2 n a (\<lambda>i j. fsum (\<lambda>k. get3 (Array3 n a b A) (label_index n i) j k
                       * get2 (Array2 n b B) (label_index n i) k) b) =
     mk2 n a (\<lambda>i j. fsum (\<lambda>k. get3 (Array3 n a b A) i j k * get2 (Array2 n b B) i k) b)"
    by (intro mk2_cong) (auto simp: label_index_def)
  then show ?thesis
    unfolding rotations3d_rotate_vector_collection_def
    by (simp add: einsum_aligned label_ok_def label_size_def del: einsum_ijk_ik_ij.simps)
qed

lemma rotate_single_matrix:
  "rotate_vector_collection (Rank2 (Array2 a b A)) (Rank2 (Array2 n b B)) optimize =
   Inr (Rank2 (mk2 n a (\<lambda>i r. fsum (\<lambda>c. get2 (Array2 a b A) r c * get2 (Array2 n b B) i c) b)))"
  unfolding rotate_vector_collection_def
  by (simp add: dot_transposed del: transpose_array.simps np_dot.simps)

lemma rotations3d_single_matrix:
  "rotations3d_rotate_vector_collection (Rank2 (Array2 3 3 A)) (Rank2 (Array2 n 3 B)) optimize =
   Inr (Rank2 (mk2 n 3 (\<lambda>i r. fsum (\<lambda>c. get2 (Array2 3 3 A) r c * get2 (Array2 n 3 B) i c) 3)))"
  unfolding rotations3d_rotate_vector_collection_def
  by (simp add: dot_transposed del: transpose_array.simps np_dot.simps)

lemma rotate_aligned:
  assumes "n \<noteq> 1"
  shows "rotate_vector_collection (Rank3 (Array3 n a b A)) (Rank2 (Array2 n b B)) optimize
   = Inr (Rank2 (mk2 n a (\<lambda>i j. fsum (\<lambda>k. get3 (Array3 n a b A) i j k * get2 (Array2 n b B) i k) b)))"
proof -
  have "rotate_vector_collection (Rank3 (Array3 n a b A)) (Rank2 (Array2 n b B)) optimize
      = rotations3d_rotate_vector_collection (Rank3 (Array3 n a b A)) (Rank2 (Array2 n b B)) optimize"
    unfolding rotate_vector_collection_def rotations3d_rotate_vector_collection_def
    using assms by simp
  then show ?thesis by (simp only: rotations3d_aligned)
qed

text \<open>Evaluation of small arrays and sums.\<close>

lemma mk2_2_3: "mk2 2 3 f = Array2 2 3 [f 0 0, f 0 1, f 0 2, f 1 0, f 1 1, f 1 2]"
  by (simp add: mk2_def upt_conv_Cons numeral_2_eq_2[symmetric])

lemma fsum_3: "fsum f 3 = Val 0 + f 0 + f 1 + f 2"
  by (simp add: eval_nat_numeral)

lemma applies_to_every_vector_mk2:
  "applies_to_every_vector M d (Array2 n d B)
     (Inr (Rank2 (mk2 n d (\<lambda>i r. fsum (\<lambda>c. M r c * get2 (Array2 n d B) i c) d))))"
  unfolding applies_to_every_vector_def
  by (simp add: get2_mk2 shape_mk2 wf_mk2 del: get2.simps)

text \<open>One matrix against sets of vectors: \<open>np.dot\<close> contracts the axis next to the last.\<close>

lemma mk3_cong:
  assumes "\<And>i j k. i < s \<Longrightarrow> j < n \<Longrightarrow> k < d \<Longrightarrow> f i j k = g i j k"
  shows "mk3 s n d f = mk3 s n d g"
proof -
  have "f (p div (n * d)) ((p div d) mod n) (p mod d) = g (p div (n * d)) ((p div d) mod n) (p mod d)"
    if "p < s * n * d" for p
  proof -
    have d: "0 < d" and n: "0 < n" using that by (cases d; cases n; auto)+
    have "p < s * (n * d)" using that by (simp add: mult.assoc)
    then have "p div (n * d) < s" by (simp add: less_mult_imp_div_less)
    then show ?thesis using d n by (intro assms) auto
  qed
  then show ?thesis by (simp add: mk3_def)
qed

lemma transpose_mk3:
  "transpose_array (Rank3 (mk3 s n d f)) = Rank3 (mk3 d n s (\<lambda>i j k. get3 (mk3 s n d f) k j i))"
  by (simp add: mk3_def)

lemma np_dot_mk3:
  "np_dot (Array2 a b A) (Rank3 (mk3 p q r g)) =
     (if b \<noteq> q then Inl ValueError
      else Inr (Rank3 (mk3 a p r
        (\<lambda>i k m. fsum (\<lambda>c. get2 (Array2 a b A) i c * get3 (mk3 p q r g) k c m) b))))"
  by (simp add: mk3_def)

lemma dot_transposed_sets:
  "ebind (np_dot (Array2 a b A) (transpose_array (Rank3 (Array3 s b d B))))
      (\<lambda>r. Inr (transpose_array r)) =
   Inr (Rank3 (mk3 s d a
     (\<lambda>m k r. fsum (\<lambda>c. get2 (Array2 a b A) r c * get3 (Array3 s b d B) m c k) b)))"
proof -
  let ?M = "Array2 a b A" and ?V = "Array3 s b d B"
  have t: "transpose_array (Rank3 ?V) = Rank3 (mk3 d b s (\<lambda>i j k. get3 ?V k j i))"
    by simp
  have "mk3 a d s (\<lambda>i k m. fsum (\<lambda>c. get2 ?M i c
           * get3 (mk3 d b s (\<lambda>i j k. get3 ?V k j i)) k c m) b)
      = mk3 a d s (\<lambda>i k m. fsum (\<lambda>c. get2 ?M i c * get3 ?V m c k) b)"
    by (intro mk3_cong fsum_cong) (simp add: get3_mk3)
  then have d: "np_dot ?M (transpose_array (Rank3 ?V)) =
      Inr (Rank3 (mk3 a d s (\<lambda>i k m. fsum (\<lambda>c. get2 ?M i c * get3 ?V m c k) b)))"
    unfolding t np_dot_mk3 by simp
  have "mk3 s d a (\<lambda>i j k. get3 (mk3 a d s
            (\<lambda>i k m. fsum (\<lambda>c. get2 ?M i c * get3 ?V m c k) b)) k j i)
      = mk3 s d a (\<lambda>m k r. fsum (\<lambda>c. get2 ?M r c * get3 ?V m c k) b)"
    by (intro mk3_cong) (simp add: get3_mk3)
  then show ?thesis
    unfolding d ebind_def by (simp add: transpose_mk3)
qed

lemma mk3_1_2_3:
  "mk3 (Suc 0) 2 3 f = Array3 1 2 3 [f 0 0 0, f 0 0 1, f 0 0 2, f 0 1 0, f 0 1 1, f 0 1 2]"
  by (simp add: mk3_def upt_conv_Cons numeral_2_eq_2[symmetric])

section \<open>One matrix for every vector\<close>

lemma mk2_1_2: "mk2 (Suc 0) 2 f = Array2 1 2 [f 0 0, f 0 1]"
  by (simp add: mk2_def upt_conv_Cons)

lemma fsum_2: "fsum f 2 = Val 0 + f 0 + f 1"
  by (simp add: eval_nat_numeral)

text \<open>
  C5, as amended. Given one \<open>d \<times> d\<close> matrix (a rank-two argument) or a collection of
  length one holding it, and a collection of \<open>n\<close> \<open>d\<close>-vectors, the
  \<open>rotate_vector_collection\<close> of \<open>rotate_vector_collection.py\<close> returns, for every
  \<open>d\<close>, the collection whose \<open>i\<close>-th element is the product of that matrix with the
  \<open>i\<close>-th vector. The \<open>rotate_vector_collection\<close> of \<open>rotations3d.py\<close> returns that
  collection for a rank-two matrix when \<open>d = 3\<close>, the shape its guard recognises as one
  matrix, and for a collection of length one for every \<open>d\<close>.
\<close>

theorem one_matrix_applied_to_every_vector:
  "applies_to_every_vector (get2 (Array2 d d A)) d (Array2 n d B)
     (rotate_vector_collection (Rank2 (Array2 d d A)) (Rank2 (Array2 n d B)) optimize)
   \<and> applies_to_every_vector (get3 (Array3 1 d d As) 0) d (Array2 n d B)
     (rotate_vector_collection (Rank3 (Array3 1 d d As)) (Rank2 (Array2 n d B)) optimize)
   \<and> applies_to_every_vector (get2 (Array2 3 3 A)) 3 (Array2 n 3 B)
     (rotations3d_rotate_vector_collection (Rank2 (Array2 3 3 A)) (Rank2 (Array2 n 3 B)) optimize)
   \<and> applies_to_every_vector (get3 (Array3 1 d d As) 0) d (Array2 n d B)
     (rotations3d_rotate_vector_collection (Rank3 (Array3 1 d d As)) (Rank2 (Array2 n d B))
        optimize)"
  by (simp only: rotate_single_matrix rotate_first_matrix rotations3d_single_matrix
      rotations3d_first_matrix applies_to_every_vector_mk2 simp_thms)

theorem one_matrix_applied_to_every_vector_witness:
  "applies_to_every_vector (get2 (Array2 3 3 [Val 0, Val (- 1), Val 0, Val 1, Val 0, Val 0, Val 0, Val 0, Val 1])) 3
     (Array2 2 3 [Val 1, Val 0, Val 0, Val 0, Val 2, Val 5])
     (rotate_vector_collection
        (Rank2 (Array2 3 3 [Val 0, Val (- 1), Val 0, Val 1, Val 0, Val 0, Val 0, Val 0, Val 1]))
        (Rank2 (Array2 2 3 [Val 1, Val 0, Val 0, Val 0, Val 2, Val 5])) False)
   \<and> rotate_vector_collection
        (Rank2 (Array2 3 3 [Val 0, Val (- 1), Val 0, Val 1, Val 0, Val 0, Val 0, Val 0, Val 1]))
        (Rank2 (Array2 2 3 [Val 1, Val 0, Val 0, Val 0, Val 2, Val 5])) False
      = Inr (Rank2 (Array2 2 3 [Val 0, Val 1, Val 0, Val (- 2), Val 0, Val 5]))"
  using one_matrix_applied_to_every_vector [of 3
      "[Val 0, Val (- 1), Val 0, Val 1, Val 0, Val 0, Val 0, Val 0, Val 1]" 2
      "[Val 1, Val 0, Val 0, Val 0, Val 2, Val 5]" False]
  by (simp add: rotate_single_matrix mk2_2_3 fsum_3)

text \<open>
  For the routine of \<open>rotations3d.py\<close> the claim fails at a rank-two matrix of any
  other size. The quarter turn of the plane, of shape \<open>(2, 2)\<close>, against one vector
  \<open>(1, 0)\<close>: the shape is not \<open>(3, 3)\<close>, so the matrix goes to the contraction with
  three subscripts, which a rank-two operand does not have, and the call raises
  \<open>ValueError\<close>. The routine of \<open>rotate_vector_collection.py\<close> returns the rotated
  vector \<open>(0, 1)\<close> for the same arguments.
\<close>

theorem rotations3d_single_matrix_counterexample:
  "rotations3d_rotate_vector_collection
     (Rank2 (Array2 2 2 [Val 0, Val (- 1), Val 1, Val 0]))
     (Rank2 (Array2 1 2 [Val 1, Val 0])) False = Inl ValueError
   \<and> rotate_vector_collection
     (Rank2 (Array2 2 2 [Val 0, Val (- 1), Val 1, Val 0]))
     (Rank2 (Array2 1 2 [Val 1, Val 0])) False = Inr (Rank2 (Array2 1 2 [Val 0, Val 1]))"
proof -
  have "rotations3d_rotate_vector_collection
     (Rank2 (Array2 2 2 [Val 0, Val (- 1), Val 1, Val 0]))
     (Rank2 (Array2 1 2 [Val 1, Val 0])) False = Inl ValueError"
    by (simp add: rotations3d_rotate_vector_collection_def)
  moreover have "rotate_vector_collection
     (Rank2 (Array2 2 2 [Val 0, Val (- 1), Val 1, Val 0]))
     (Rank2 (Array2 1 2 [Val 1, Val 0])) False = Inr (Rank2 (Array2 1 2 [Val 0, Val 1]))"
    by (simp add: rotate_single_matrix mk2_1_2 fsum_2)
  ultimately show ?thesis by simp
qed

section \<open>Disagreeing innermost extents\<close>

text \<open>
  C6, as amended. Whenever the innermost extent of the matrix argument differs from
  the innermost extent of the vector argument, the routine of
  \<open>rotate_vector_collection.py\<close> raises the \<open>AssertionError\<close> of its first check and
  returns no result.
\<close>

theorem rotate_vector_collection_shape_mismatch:
  "last (shape rotation_matrices) \<noteq> last (shape vectors) \<Longrightarrow>
   rotate_vector_collection rotation_matrices vectors optimize = Inl (AssertionError [])"
  by (simp add: rotate_vector_collection_def)

theorem rotate_vector_collection_shape_mismatch_witness:
  "rotate_vector_collection
     (Rank2 (Array2 3 3 [Val 1, Val 0, Val 0, Val 0, Val 1, Val 0, Val 0, Val 0, Val 1]))
     (Rank2 (Array2 1 4 [Val 1, Val 2, Val 3, Val 4])) False = Inl (AssertionError [])"
  using rotate_vector_collection_shape_mismatch [of
     "Rank2 (Array2 3 3 [Val 1, Val 0, Val 0, Val 0, Val 1, Val 0, Val 0, Val 0, Val 1])"
     "Rank2 (Array2 1 4 [Val 1, Val 2, Val 3, Val 4])" False]
  by simp

text \<open>
  The routine of \<open>rotations3d.py\<close> has no such check, and a disagreement is refused
  only where \<open>np.dot\<close> or \<open>np.einsum\<close> refuses it. One 3-by-3 identity matrix
  against one set of three vectors of two components disagrees in the innermost extent
  (3 against 2), and \<open>np.dot\<close>, which contracts the axis next to the last of the
  transposed vectors, returns numbers. Two 3-by-3 identity matrices against two vectors
  of one component disagree as well (3 against 1), and the contraction broadcasts the
  single component and returns numbers.
\<close>

theorem rotations3d_shape_mismatch_counterexample:
  "last (shape (Rank2 (Array2 3 3
       [Val 1, Val 0, Val 0, Val 0, Val 1, Val 0, Val 0, Val 0, Val 1])))
     \<noteq> last (shape (Rank3 (Array3 1 3 2 [Val 1, Val 2, Val 3, Val 4, Val 5, Val 6])))
   \<and> rotations3d_rotate_vector_collection
     (Rank2 (Array2 3 3 [Val 1, Val 0, Val 0, Val 0, Val 1, Val 0, Val 0, Val 0, Val 1]))
     (Rank3 (Array3 1 3 2 [Val 1, Val 2, Val 3, Val 4, Val 5, Val 6])) False
     = Inr (Rank3 (Array3 1 2 3 [Val 1, Val 3, Val 5, Val 2, Val 4, Val 6]))
   \<and> last (shape (Rank3 (Array3 2 3 3
       [Val 1, Val 0, Val 0, Val 0, Val 1, Val 0, Val 0, Val 0, Val 1,
        Val 1, Val 0, Val 0, Val 0, Val 1, Val 0, Val 0, Val 0, Val 1])))
     \<noteq> last (shape (Rank2 (Array2 2 1 [Val 2, Val 5])))
   \<and> rotations3d_rotate_vector_collection
     (Rank3 (Array3 2 3 3
       [Val 1, Val 0, Val 0, Val 0, Val 1, Val 0, Val 0, Val 0, Val 1,
        Val 1, Val 0, Val 0, Val 0, Val 1, Val 0, Val 0, Val 0, Val 1]))
     (Rank2 (Array2 2 1 [Val 2, Val 5])) False
     = Inr (Rank2 (Array2 2 3 [Val 2, Val 2, Val 2, Val 5, Val 5, Val 5]))"
proof -
  have "rotations3d_rotate_vector_collection
     (Rank2 (Array2 3 3 [Val 1, Val 0, Val 0, Val 0, Val 1, Val 0, Val 0, Val 0, Val 1]))
     (Rank3 (Array3 1 3 2 [Val 1, Val 2, Val 3, Val 4, Val 5, Val 6])) False
     = Inr (Rank3 (Array3 1 2 3 [Val 1, Val 3, Val 5, Val 2, Val 4, Val 6]))"
    unfolding rotations3d_rotate_vector_collection_def
    by (simp add: dot_transposed_sets mk3_1_2_3 fsum_3 del: transpose_array.simps np_dot.simps)
  moreover have "rotations3d_rotate_vector_collection
     (Rank3 (Array3 2 3 3
       [Val 1, Val 0, Val 0, Val 0, Val 1, Val 0, Val 0, Val 0, Val 1,
        Val 1, Val 0, Val 0, Val 0, Val 1, Val 0, Val 0, Val 0, Val 1]))
     (Rank2 (Array2 2 1 [Val 2, Val 5])) False
     = Inr (Rank2 (Array2 2 3 [Val 2, Val 2, Val 2, Val 5, Val 5, Val 5]))"
    by (simp add: rotations3d_rotate_vector_collection_def label_ok_def label_size_def
      label_index_def mk2_2_3 fsum_3)
  ultimately show ?thesis by simp
qed

section \<open>The two implementations agree\<close>

text \<open>
  C10. Whenever the routine of \<open>rotations3d.py\<close> and the routine of
  \<open>rotate_vector_collection.py\<close> both return a result for the same arguments, the
  two results are equal. Both return a result, the same one, for one 3-by-3 matrix
  with \<open>n\<close> 3-vectors, for a collection of one 3-by-3 matrix with \<open>n\<close> 3-vectors, and
  for \<open>n\<close> 3-by-3 matrices with \<open>n\<close> 3-vectors.
\<close>

theorem two_implementations_agree:
  "(\<forall>x y. rotations3d_rotate_vector_collection R V o1 = Inr x
        \<and> rotate_vector_collection R V o2 = Inr y \<longrightarrow> x = y)
   \<and> (\<exists>out. rotations3d_rotate_vector_collection (Rank2 (Array2 3 3 A)) (Rank2 (Array2 n 3 B)) o1
          = Inr out
        \<and> rotate_vector_collection (Rank2 (Array2 3 3 A)) (Rank2 (Array2 n 3 B)) o2 = Inr out)
   \<and> (\<exists>out. rotations3d_rotate_vector_collection (Rank3 (Array3 1 3 3 A1)) (Rank2 (Array2 n 3 B))
          o1 = Inr out
        \<and> rotate_vector_collection (Rank3 (Array3 1 3 3 A1)) (Rank2 (Array2 n 3 B)) o2 = Inr out)
   \<and> (\<exists>out. rotations3d_rotate_vector_collection (Rank3 (Array3 n 3 3 An)) (Rank2 (Array2 n 3 B))
          o1 = Inr out
        \<and> rotate_vector_collection (Rank3 (Array3 n 3 3 An)) (Rank2 (Array2 n 3 B)) o2 = Inr out)"
proof (intro conjI allI impI)
  fix x y
  assume "rotations3d_rotate_vector_collection R V o1 = Inr x
        \<and> rotate_vector_collection R V o2 = Inr y"
  then show "x = y" using implementations_agree by blast
next
  show "\<exists>out. rotations3d_rotate_vector_collection (Rank2 (Array2 3 3 A)) (Rank2 (Array2 n 3 B)) o1
          = Inr out
        \<and> rotate_vector_collection (Rank2 (Array2 3 3 A)) (Rank2 (Array2 n 3 B)) o2 = Inr out"
    by (simp only: rotate_single_matrix rotations3d_single_matrix) blast
next
  show "\<exists>out. rotations3d_rotate_vector_collection (Rank3 (Array3 1 3 3 A1)) (Rank2 (Array2 n 3 B))
          o1 = Inr out
        \<and> rotate_vector_collection (Rank3 (Array3 1 3 3 A1)) (Rank2 (Array2 n 3 B)) o2 = Inr out"
    by (simp only: rotate_first_matrix rotations3d_first_matrix) blast
next
  show "\<exists>out. rotations3d_rotate_vector_collection (Rank3 (Array3 n 3 3 An)) (Rank2 (Array2 n 3 B))
          o1 = Inr out
        \<and> rotate_vector_collection (Rank3 (Array3 n 3 3 An)) (Rank2 (Array2 n 3 B)) o2 = Inr out"
  proof (cases "n = 1")
    case True
    show ?thesis unfolding True
      by (simp only: rotate_first_matrix rotations3d_first_matrix) blast
  next
    case False
    show ?thesis
      by (simp only: rotate_aligned[OF False] rotations3d_aligned) blast
  qed
qed

theorem two_implementations_agree_witness:
  "rotations3d_rotate_vector_collection
     (Rank3 (Array3 2 3 3
       [Val 0, Val (- 1), Val 0, Val 1, Val 0, Val 0, Val 0, Val 0, Val 1,
        Val 1, Val 0, Val 0, Val 0, Val 1, Val 0, Val 0, Val 0, Val 1]))
     (Rank2 (Array2 2 3 [Val 1, Val 0, Val 0, Val 0, Val 2, Val 5])) False
     = Inr (Rank2 (Array2 2 3 [Val 0, Val 1, Val 0, Val 0, Val 2, Val 5]))
   \<and> rotate_vector_collection
     (Rank3 (Array3 2 3 3
       [Val 0, Val (- 1), Val 0, Val 1, Val 0, Val 0, Val 0, Val 0, Val 1,
        Val 1, Val 0, Val 0, Val 0, Val 1, Val 0, Val 0, Val 0, Val 1]))
     (Rank2 (Array2 2 3 [Val 1, Val 0, Val 0, Val 0, Val 2, Val 5])) True
     = Inr (Rank2 (Array2 2 3 [Val 0, Val 1, Val 0, Val 0, Val 2, Val 5]))"
proof -
  let ?R = "Rank3 (Array3 2 3 3
       [Val 0, Val (- 1), Val 0, Val 1, Val 0, Val 0, Val 0, Val 0, Val 1,
        Val 1, Val 0, Val 0, Val 0, Val 1, Val 0, Val 0, Val 0, Val 1])"
  let ?V = "Rank2 (Array2 2 3 [Val 1, Val 0, Val 0, Val 0, Val 2, Val 5])"
  let ?out = "Rank2 (Array2 2 3 [Val 0, Val 1, Val 0, Val 0, Val 2, Val 5])"
  have a: "rotations3d_rotate_vector_collection ?R ?V False = Inr ?out"
    by (simp add: rotations3d_aligned mk2_2_3 fsum_3)
  have b: "\<exists>y. rotate_vector_collection ?R ?V True = Inr y"
    by (simp add: rotate_aligned)
  from a b two_implementations_agree [of ?R ?V False True] show ?thesis
    by auto
qed

section \<open>The rotation matrix of one angle and one axis\<close>

lemma assign_entries_same:
  "length xs = length R \<Longrightarrow>
   assign_entries R r c xs = Inr (map (\<lambda>(M, x). mset M r c x) (zip R xs))"
  by (simp add: assign_entries_def)

lemma ebind_Inr: "ebind (Inr x) f = f x"
  by (simp add: ebind_def)

lemma from_angles_map:
  assumes "length angles = length directions"
  shows "rotation_matrices_from_angles angles directions =
    Inr (map (\<lambda>(a, d). rotation_matrix_from_angle a d) (zip angles directions))"
  using assms
  apply (simp add: rotation_matrices_from_angles_def Let_def normalized_vectors_def
        assign_entries_same zeros3_def ebind_Inr)
  apply (rule nth_equalityI)
   apply simp
  apply (simp add: rotation_matrix_from_angle_def Let_def)
  done

lemma sumsq_zero: "x * x + y * y + z * z = 0 \<longleftrightarrow> x = 0 \<and> y = 0 \<and> z = (0::real)"
proof
  assume h: "x * x + y * y + z * z = 0"
  have "0 \<le> x * x" "0 \<le> y * y" "0 \<le> z * z" by simp_all
  with h have "x * x = 0" "y * y = 0" "z * z = 0" by linarith+
  then show "x = 0 \<and> y = 0 \<and> z = 0" by simp
qed simp

lemma normalize3_Val:
  "normalize3 (Val x, Val y, Val z) =
     (if x = 0 \<and> y = 0 \<and> z = 0 then (NaN, NaN, NaN)
      else (Val (x / sqrt (x\<^sup>2 + y\<^sup>2 + z\<^sup>2)), Val (y / sqrt (x\<^sup>2 + y\<^sup>2 + z\<^sup>2)),
            Val (z / sqrt (x\<^sup>2 + y\<^sup>2 + z\<^sup>2))))"
proof -
  have nn: "\<not> x * x + y * y + z * z < 0"
    by (simp add: not_less add_nonneg_nonneg)
  show ?thesis
    using nn sumsq_zero[of x y z] by (auto simp: norm3_def Let_def power2_eq_square)
qed

lemma rotation_matrix_explicit:
  assumes "normalize3 d = (Val k0, Val k1, Val k2)"
  shows "rotation_matrix_from_angle (Val a) d = rodrigues a k0 k1 k2"
  by (simp add: rotation_matrix_from_angle_def Let_def assms mset_def mget_def rodrigues_def
        zero3_def outer3_def mmap_def vmap_def madd_def vadd_def fancy_update_def)

lemma rodrigues_entries:
  assumes "r < 3" and "c < 3"
  shows "mget (rodrigues a k0 k1 k2) r c = Val (rodrigues_entry a (k0, k1, k2) r c)"
proof -
  have r: "r = 0 \<or> r = 1 \<or> r = 2" and c: "c = 0 \<or> c = 1 \<or> c = 2"
    using assms by auto
  show ?thesis
    using r c by (auto simp: mget_def rodrigues_entry_def skew_entry_def rodrigues_def)
qed

declare normalize3.simps [simp del]

lemma skew_entry_cross:
  assumes "r < 3"
  shows "skew_entry k r 0 * tget v 0 + skew_entry k r 1 * tget v 1 + skew_entry k r 2 * tget v 2
     = tget (cross_real k v) r"
proof -
  obtain k0 k1 k2 where k: "k = (k0, k1, k2)" by (cases k)
  obtain v0 v1 v2 where v: "v = (v0, v1, v2)" by (cases v)
  have r: "r = 0 \<or> r = 1 \<or> r = 2" using assms by auto
  show ?thesis using r unfolding k v by (auto simp: skew_entry_def)
qed

lemma from_angles_nth:
  assumes "length angles = length directions" and "i < length directions"
  shows "\<exists>Ms. rotation_matrices_from_angles angles directions = Inr Ms
     \<and> length Ms = length directions
     \<and> Ms ! i = rotation_matrix_from_angle (angles ! i) (directions ! i)"
  using assms by (simp add: from_angles_map)

lemma rotation_matrix_zero_axis:
  "rotation_matrix_from_angle a (Val 0, Val 0, Val 0) =
     ((NaN, NaN, NaN), (NaN, NaN, NaN), (NaN, NaN, NaN))"
  by (simp add: rotation_matrix_from_angle_def Let_def normalize3_Val mset_def mget_def
        zero3_def outer3_def mmap_def vmap_def madd_def vadd_def fancy_update_def)

section \<open>Rodrigues' formula\<close>

text \<open>
  C3. For index-aligned collections of angles and axes, at every index \<open>i\<close> with a
  number \<open>a\<close> for the angle and a non-zero axis of numbers,
  \<open>rotation_matrices_from_angles\<close> returns the matrix whose entry in row \<open>r\<close> and
  column \<open>c\<close> is the sum of three terms of the unit axis \<open>k\<close>: \<open>cos a\<close> on the
  diagonal, \<open>(1 - cos a)\<close> times \<open>k r * k c\<close>, and \<open>sin a\<close> times the entry of the
  skew-symmetric cross-product matrix of \<open>k\<close>. The product of that skew matrix with a
  vector \<open>v\<close> is the cross product \<open>k \<times> v\<close>, the right-hand convention.
\<close>

theorem rotation_matrices_from_angles_rodrigues:
  assumes "length angles = length directions" and "i < length directions"
    and "angles ! i = Val a" and "directions ! i = (Val x, Val y, Val z)"
    and "(x, y, z) \<noteq> (0, 0, 0)"
  shows "\<exists>Ms. rotation_matrices_from_angles angles directions = Inr Ms
     \<and> length Ms = length directions
     \<and> (\<forall>r<3. \<forall>c<3. mget (Ms ! i) r c = Val (rodrigues_entry a (unit_axis (x, y, z)) r c))
     \<and> (\<forall>r<3. \<forall>v. skew_entry (unit_axis (x, y, z)) r 0 * tget v 0
            + skew_entry (unit_axis (x, y, z)) r 1 * tget v 1
            + skew_entry (unit_axis (x, y, z)) r 2 * tget v 2
          = tget (cross_real (unit_axis (x, y, z)) v) r)"
proof -
  obtain Ms where Ms: "rotation_matrices_from_angles angles directions = Inr Ms"
    "length Ms = length directions"
    "Ms ! i = rotation_matrix_from_angle (angles ! i) (directions ! i)"
    using from_angles_nth[OF assms(1,2)] by blast
  let ?n = "sqrt (x\<^sup>2 + y\<^sup>2 + z\<^sup>2)"
  have "normalize3 (directions ! i) = (Val (x / ?n), Val (y / ?n), Val (z / ?n))"
    using assms(5) by (simp add: assms(4) normalize3_Val)
  then have "Ms ! i = rodrigues a (x / ?n) (y / ?n) (z / ?n)"
    by (simp add: Ms(3) assms(3) rotation_matrix_explicit)
  then have "\<forall>r<3. \<forall>c<3. mget (Ms ! i) r c = Val (rodrigues_entry a (unit_axis (x, y, z)) r c)"
    by (simp add: rodrigues_entries unit_axis_def)
  then show ?thesis using Ms(1,2) skew_entry_cross by blast
qed

text \<open>
  A quarter turn about the third axis, given as \<open>(0, 0, 2)\<close>: the entry in row 1 and
  column 0 is 1, so the first basis vector goes to the second.
\<close>

theorem rotation_matrices_from_angles_rodrigues_witness:
  "rotation_matrices_from_angles [Val (pi / 2)] [(Val 0, Val 0, Val 2)]
     = Inr [((Val 0, Val (- 1), Val 0), (Val 1, Val 0, Val 0), (Val 0, Val 0, Val 1))]
   \<and> Val (rodrigues_entry (pi / 2) (unit_axis (0, 0, 2)) 1 0) = Val 1"
proof -
  let ?M = "((Val 0, Val (- 1), Val 0), (Val 1, Val 0, Val 0), (Val 0, Val 0, Val 1))"
  have "normalize3 (Val 0, Val 0, Val 2) = (Val 0, Val 0, Val 1)"
    by (simp add: normalize3_Val)
  then have e: "rotation_matrices_from_angles [Val (pi / 2)] [(Val 0, Val 0, Val 2)] = Inr [?M]"
    by (simp add: from_angles_map rotation_matrix_explicit rodrigues_def)
  obtain Ms where Ms: "rotation_matrices_from_angles [Val (pi / 2)] [(Val 0, Val 0, Val 2)] = Inr Ms"
    "\<forall>r<3. \<forall>c<3. mget (Ms ! 0) r c = Val (rodrigues_entry (pi / 2) (unit_axis (0, 0, 2)) r c)"
    using rotation_matrices_from_angles_rodrigues
      [of "[Val (pi / 2)]" "[(Val 0, Val 0, Val 2)]" 0 "pi / 2" 0 0 2]
    by auto
  have "Ms = [?M]" using e Ms(1) by simp
  then have "mget ?M 1 0 = Val (rodrigues_entry (pi / 2) (unit_axis (0, 0, 2)) 1 0)"
    using Ms(2) by auto
  then have "Val (rodrigues_entry (pi / 2) (unit_axis (0, 0, 2)) 1 0) = Val 1"
    by (simp add: mget_def)
  with e show ?thesis by simp
qed

section \<open>A zero-length axis\<close>

text \<open>
  C7. When the axis at index \<open>i\<close> is the zero vector, every matrix that
  \<open>rotation_matrices_from_angles\<close> returns has not-a-number in all nine entries at
  index \<open>i\<close>, so no finite matrix is returned there; and for index-aligned collections
  the function does return. The unit vector of the zero vector is not-a-number by the
  contract of \<open>normalized_vectors\<close>.
\<close>

theorem zero_axis_gives_nan:
  assumes "i < length directions" and "directions ! i = (Val 0, Val 0, Val 0)"
  shows "(\<forall>Ms. rotation_matrices_from_angles angles directions = Inr Ms \<longrightarrow>
            (\<forall>r<3. \<forall>c<3. mget (Ms ! i) r c = NaN))
     \<and> (length angles = length directions \<longrightarrow>
            (\<exists>Ms. rotation_matrices_from_angles angles directions = Inr Ms))"
proof (intro conjI allI impI)
  fix Ms r c
  assume Ms: "rotation_matrices_from_angles angles directions = Inr Ms"
    and r: "r < (3::nat)" and c: "c < (3::nat)"
  have len: "length angles = length directions"
  proof (rule ccontr)
    assume "length angles \<noteq> length directions"
    then have "rotation_matrices_from_angles angles directions = Inl ValueError"
      by (auto simp: rotation_matrices_from_angles_def Let_def normalized_vectors_def
          assign_entries_def ebind_def zeros3_def split: sum.splits)
    with Ms show False by simp
  qed
  have "Ms ! i = rotation_matrix_from_angle (angles ! i) (directions ! i)"
    using from_angles_nth[OF len assms(1)] Ms by auto
  then have "Ms ! i = ((NaN, NaN, NaN), (NaN, NaN, NaN), (NaN, NaN, NaN))"
    by (simp add: assms(2) rotation_matrix_zero_axis)
  moreover have "r = 0 \<or> r = 1 \<or> r = 2" "c = 0 \<or> c = 1 \<or> c = 2" using r c by auto
  ultimately show "mget (Ms ! i) r c = NaN"
    by (auto simp: mget_def)
next
  assume "length angles = length directions"
  then show "\<exists>Ms. rotation_matrices_from_angles angles directions = Inr Ms"
    by (simp add: from_angles_map)
qed

theorem zero_axis_gives_nan_witness:
  "rotation_matrices_from_angles [Val 0, Val 1] [(Val 1, Val 0, Val 0), (Val 0, Val 0, Val 0)]
   = Inr [((Val 1, Val 0, Val 0), (Val 0, Val 1, Val 0), (Val 0, Val 0, Val 1)),
          ((NaN, NaN, NaN), (NaN, NaN, NaN), (NaN, NaN, NaN))]
   \<and> mget ((NaN, NaN, NaN), (NaN, NaN, NaN), (NaN, NaN, NaN)) 0 0 = NaN"
proof -
  let ?N = "((NaN, NaN, NaN), (NaN, NaN, NaN), (NaN, NaN, NaN))"
  let ?I = "((Val 1, Val 0, Val 0), (Val 0, Val 1, Val 0), (Val 0, Val 0, Val 1))"
  have "normalize3 (Val 1, Val 0, Val 0) = (Val 1, Val 0, Val 0)"
    by (simp add: normalize3_Val)
  then have e: "rotation_matrices_from_angles [Val 0, Val 1]
      [(Val 1, Val 0, Val 0), (Val 0, Val 0, Val 0)] = Inr [?I, ?N]"
    by (simp add: from_angles_map rotation_matrix_explicit rodrigues_def
        rotation_matrix_zero_axis)
  have "\<forall>r<3. \<forall>c<3. mget ([?I, ?N] ! 1) r c = NaN"
    using zero_axis_gives_nan [of 1 "[(Val 1, Val 0, Val 0), (Val 0, Val 0, Val 0)]"
        "[Val 0, Val 1]"] e
    by simp
  then have "mget ?N 0 0 = NaN" by simp
  with e show ?thesis by simp
qed

section \<open>Every matrix of Rodrigues' formula is a rotation\<close>

text \<open>
  The identities behind orthonormality: for a unit vector \<open>k\<close> and numbers \<open>c\<close>,
  \<open>s\<close> with \<open>c\<^sup>2 + s\<^sup>2 = 1\<close>, the columns and the rows of the matrix are orthonormal
  and its determinant is one.
\<close>

lemma orth_real:
  fixes c s k0 k1 k2 :: real
  assumes k: "k0 * k0 + k1 * k1 + k2 * k2 = 1" and cs: "c * c + s * s = 1"
  defines "m00 \<equiv> c + k0 * k0 * (1 - c)" and "m01 \<equiv> k0 * k1 * (1 - c) - k2 * s"
    and "m02 \<equiv> k0 * k2 * (1 - c) + k1 * s"
    and "m10 \<equiv> k1 * k0 * (1 - c) + k2 * s" and "m11 \<equiv> c + k1 * k1 * (1 - c)"
    and "m12 \<equiv> k1 * k2 * (1 - c) - k0 * s"
    and "m20 \<equiv> k2 * k0 * (1 - c) - k1 * s" and "m21 \<equiv> k2 * k1 * (1 - c) + k0 * s"
    and "m22 \<equiv> c + k2 * k2 * (1 - c)"
  shows "m00 * m00 + m10 * m10 + m20 * m20 = 1"
    and "m00 * m01 + m10 * m11 + m20 * m21 = 0"
    and "m00 * m02 + m10 * m12 + m20 * m22 = 0"
    and "m01 * m01 + m11 * m11 + m21 * m21 = 1"
    and "m01 * m02 + m11 * m12 + m21 * m22 = 0"
    and "m02 * m02 + m12 * m12 + m22 * m22 = 1"
    and "m01 * m00 + m11 * m10 + m21 * m20 = 0"
    and "m02 * m00 + m12 * m10 + m22 * m20 = 0"
    and "m02 * m01 + m12 * m11 + m22 * m21 = 0"
    and "m00 * m00 + m01 * m01 + m02 * m02 = 1"
    and "m00 * m10 + m01 * m11 + m02 * m12 = 0"
    and "m00 * m20 + m01 * m21 + m02 * m22 = 0"
    and "m10 * m00 + m11 * m01 + m12 * m02 = 0"
    and "m10 * m10 + m11 * m11 + m12 * m12 = 1"
    and "m10 * m20 + m11 * m21 + m12 * m22 = 0"
    and "m20 * m00 + m21 * m01 + m22 * m02 = 0"
    and "m20 * m10 + m21 * m11 + m22 * m12 = 0"
    and "m20 * m20 + m21 * m21 + m22 * m22 = 1"
    and "m00 * (m11 * m22 - m12 * m21) - m01 * (m10 * m22 - m12 * m20)
          + m02 * (m10 * m21 - m11 * m20) = 1"
  unfolding m00_def m01_def m02_def m10_def m11_def m12_def m20_def m21_def m22_def
  using k cs by algebra+

lemma mget_explicit:
  "mget ((a, b, c), (d, e, f), (g, h, i)) 0 0 = a"
  "mget ((a, b, c), (d, e, f), (g, h, i)) 0 1 = b"
  "mget ((a, b, c), (d, e, f), (g, h, i)) 0 2 = c"
  "mget ((a, b, c), (d, e, f), (g, h, i)) 1 0 = d"
  "mget ((a, b, c), (d, e, f), (g, h, i)) 1 1 = e"
  "mget ((a, b, c), (d, e, f), (g, h, i)) 1 2 = f"
  "mget ((a, b, c), (d, e, f), (g, h, i)) 2 0 = g"
  "mget ((a, b, c), (d, e, f), (g, h, i)) 2 1 = h"
  "mget ((a, b, c), (d, e, f), (g, h, i)) 2 2 = i"
  by (simp_all add: mget_def)

lemma rodrigues_orthonormal:
  assumes "k0 * k0 + k1 * k1 + k2 * k2 = 1"
  shows "mmul (mtranspose (rodrigues a k0 k1 k2)) (rodrigues a k0 k1 k2) = identity3"
    and "mmul (rodrigues a k0 k1 k2) (mtranspose (rodrigues a k0 k1 k2)) = identity3"
    and "det3 (rodrigues a k0 k1 k2) = Val 1"
proof -
  have cs: "cos a * cos a + sin a * sin a = 1"
    by (rule sin_cos_squared_add3)
  note o = orth_real[OF assms cs]
  show "mmul (mtranspose (rodrigues a k0 k1 k2)) (rodrigues a k0 k1 k2) = identity3"
    unfolding mmul_def mmul_entry_def mtranspose_def rodrigues_def identity3_def
    by (simp only: mget_explicit times_scalar.simps plus_scalar.simps o)
  show "mmul (rodrigues a k0 k1 k2) (mtranspose (rodrigues a k0 k1 k2)) = identity3"
    unfolding mmul_def mmul_entry_def mtranspose_def rodrigues_def identity3_def
    by (simp only: mget_explicit times_scalar.simps plus_scalar.simps o)
  show "det3 (rodrigues a k0 k1 k2) = Val 1"
    unfolding det3_def rodrigues_def
    by (simp only: mget_explicit times_scalar.simps plus_scalar.simps minus_scalar.simps o)
qed

lemma unit_axis_unit:
  fixes x y z :: real
  assumes "\<not> (x = 0 \<and> y = 0 \<and> z = 0)"
  defines "n \<equiv> sqrt (x\<^sup>2 + y\<^sup>2 + z\<^sup>2)"
  shows "x / n * (x / n) + y / n * (y / n) + z / n * (z / n) = 1"
proof -
  have pos: "0 < x\<^sup>2 + y\<^sup>2 + z\<^sup>2"
    using assms(1) sumsq_zero[of x y z]
    by (metis add_nonneg_nonneg less_eq_real_def power2_eq_square zero_le_power2)
  then have n2: "n * n = x\<^sup>2 + y\<^sup>2 + z\<^sup>2"
    unfolding n_def by simp
  have "x / n * (x / n) + y / n * (y / n) + z / n * (z / n) = (x\<^sup>2 + y\<^sup>2 + z\<^sup>2) / (n * n)"
    by (simp add: power2_eq_square add_divide_distrib)
  also have "\<dots> = 1" using pos n2 by simp
  finally show ?thesis .
qed

text \<open>
  C4. For index-aligned collections of angles and axes, at every index \<open>i\<close> with a
  number for the angle and a non-zero axis of numbers, the matrix \<open>M\<close> that
  \<open>rotation_matrices_from_angles\<close> returns satisfies \<open>M\<^sup>T M = I\<close>, \<open>M M\<^sup>T = I\<close> and
  \<open>det M = 1\<close>, exactly in real arithmetic.
\<close>

theorem rotation_matrices_are_rotations:
  assumes "length angles = length directions" and "i < length directions"
    and "angles ! i = Val a" and "directions ! i = (Val x, Val y, Val z)"
    and "(x, y, z) \<noteq> (0, 0, 0)"
  shows "\<exists>Ms. rotation_matrices_from_angles angles directions = Inr Ms
     \<and> length Ms = length directions
     \<and> mmul (mtranspose (Ms ! i)) (Ms ! i) = identity3
     \<and> mmul (Ms ! i) (mtranspose (Ms ! i)) = identity3
     \<and> det3 (Ms ! i) = Val 1"
proof -
  obtain Ms where Ms: "rotation_matrices_from_angles angles directions = Inr Ms"
    "length Ms = length directions"
    "Ms ! i = rotation_matrix_from_angle (angles ! i) (directions ! i)"
    using from_angles_nth[OF assms(1,2)] by blast
  let ?n = "sqrt (x\<^sup>2 + y\<^sup>2 + z\<^sup>2)"
  have nz: "\<not> (x = 0 \<and> y = 0 \<and> z = 0)" using assms(5) by simp
  have "normalize3 (directions ! i) = (Val (x / ?n), Val (y / ?n), Val (z / ?n))"
    using nz by (simp add: assms(4) normalize3_Val)
  then have M: "Ms ! i = rodrigues a (x / ?n) (y / ?n) (z / ?n)"
    by (simp add: Ms(3) assms(3) rotation_matrix_explicit)
  note o = rodrigues_orthonormal[OF unit_axis_unit[OF nz], of a, folded M]
  show ?thesis
    using Ms(1,2) o by blast
qed

theorem rotation_matrices_are_rotations_witness:
  "rotation_matrices_from_angles [Val (pi / 2)] [(Val 0, Val 0, Val 2)]
     = Inr [((Val 0, Val (- 1), Val 0), (Val 1, Val 0, Val 0), (Val 0, Val 0, Val 1))]
   \<and> mmul (mtranspose ((Val 0, Val (- 1), Val 0), (Val 1, Val 0, Val 0), (Val 0, Val 0, Val 1)))
        ((Val 0, Val (- 1), Val 0), (Val 1, Val 0, Val 0), (Val 0, Val 0, Val 1)) = identity3
   \<and> det3 ((Val 0, Val (- 1), Val 0), (Val 1, Val 0, Val 0), (Val 0, Val 0, Val 1)) = Val 1"
proof -
  let ?M = "((Val 0, Val (- 1), Val 0), (Val 1, Val 0, Val 0), (Val 0, Val 0, Val 1))"
  have "normalize3 (Val 0, Val 0, Val 2) = (Val 0, Val 0, Val 1)"
    by (simp add: normalize3_Val)
  then have e: "rotation_matrices_from_angles [Val (pi / 2)] [(Val 0, Val 0, Val 2)] = Inr [?M]"
    by (simp add: from_angles_map rotation_matrix_explicit rodrigues_def)
  obtain Ms where Ms: "rotation_matrices_from_angles [Val (pi / 2)] [(Val 0, Val 0, Val 2)] = Inr Ms"
    "mmul (mtranspose (Ms ! 0)) (Ms ! 0) = identity3" "det3 (Ms ! 0) = Val 1"
    using rotation_matrices_are_rotations
      [of "[Val (pi / 2)]" "[(Val 0, Val 0, Val 2)]" 0 "pi / 2" 0 0 2]
    by auto
  have "Ms = [?M]" using e Ms(1) by simp
  with Ms(2,3) e show ?thesis by simp
qed

section \<open>The matrix of a basis\<close>

lemma elementwise_dot_replicate:
  "length u = N \<Longrightarrow>
   elementwise_dot (replicate N e) (normalized_vectors u) = Inr (map (\<lambda>v. dot3 e (normalize3 v)) u)"
  apply (simp add: elementwise_dot_def broadcast_def ebind_def normalized_vectors_def)
  apply (rule nth_equalityI)
   apply simp_all
  done

lemma from_basis_map:
  assumes "length uy = length ux" and "length uz = length ux"
  shows "rotation_matrices_from_basis ux uy uz =
    Inr (map (\<lambda>(x, y, z).
       ((dot3 (standard_basis 0) (normalize3 x), dot3 (standard_basis 0) (normalize3 y),
         dot3 (standard_basis 0) (normalize3 z)),
        (dot3 (standard_basis 1) (normalize3 x), dot3 (standard_basis 1) (normalize3 y),
         dot3 (standard_basis 1) (normalize3 z)),
        (dot3 (standard_basis 2) (normalize3 x), dot3 (standard_basis 2) (normalize3 y),
         dot3 (standard_basis 2) (normalize3 z)))) (zip ux (zip uy uz)))"
  using assms
  apply (simp add: rotation_matrices_from_basis_def Let_def elementwise_dot_replicate
        assign_entries_same zeros3_def ebind_Inr)
  apply (rule nth_equalityI)
   apply simp
  apply (simp add: standard_basis_def mset_def zero3_def)
  done

lemma normalize3_unit:
  assumes "x\<^sup>2 + y\<^sup>2 + z\<^sup>2 = 1"
  shows "normalize3 (Val x, Val y, Val z) = (Val x, Val y, Val z)"
proof -
  have "\<not> (x = 0 \<and> y = 0 \<and> z = 0)" using assms by auto
  then show ?thesis by (simp add: normalize3_Val assms)
qed

lemma dot3_standard_basis:
  "dot3 (standard_basis 0) (Val x, Val y, Val z) = Val x"
  "dot3 (standard_basis 1) (Val x, Val y, Val z) = Val y"
  "dot3 (standard_basis (Suc 0)) (Val x, Val y, Val z) = Val y"
  "dot3 (standard_basis 2) (Val x, Val y, Val z) = Val z"
  by (simp_all add: standard_basis_def)

text \<open>
  C9. For three index-aligned collections \<open>ux\<close>, \<open>uy\<close>, \<open>uz\<close> whose vectors at index
  \<open>i\<close> are unit vectors of numbers, \<open>rotation_matrices_from_basis\<close> returns at index
  \<open>i\<close> the matrix whose entry in row \<open>r\<close> and column \<open>c\<close> is the dot product of the
  \<open>r\<close>-th standard basis vector with the \<open>c\<close>-th supplied vector among \<open>ux[i]\<close>,
  \<open>uy[i]\<close>, \<open>uz[i]\<close>. Only the unit length of the three vectors is used.
\<close>

theorem rotation_matrices_from_basis_dot_products:
  assumes "length uy = length ux" and "length uz = length ux" and "i < length ux"
    and "ux ! i = (Val a0, Val a1, Val a2)" and "a0\<^sup>2 + a1\<^sup>2 + a2\<^sup>2 = 1"
    and "uy ! i = (Val b0, Val b1, Val b2)" and "b0\<^sup>2 + b1\<^sup>2 + b2\<^sup>2 = 1"
    and "uz ! i = (Val c0, Val c1, Val c2)" and "c0\<^sup>2 + c1\<^sup>2 + c2\<^sup>2 = 1"
  shows "\<exists>Ms. rotation_matrices_from_basis ux uy uz = Inr Ms
     \<and> length Ms = length ux
     \<and> (\<forall>r<3. \<forall>c<3. mget (Ms ! i) r c
            = dot3 (standard_basis r) (tget (ux ! i, uy ! i, uz ! i) c))"
proof -
  let ?M = "((Val a0, Val b0, Val c0), (Val a1, Val b1, Val c1), (Val a2, Val b2, Val c2))"
  let ?Ms = "map (\<lambda>(x, y, z).
       ((dot3 (standard_basis 0) (normalize3 x), dot3 (standard_basis 0) (normalize3 y),
         dot3 (standard_basis 0) (normalize3 z)),
        (dot3 (standard_basis 1) (normalize3 x), dot3 (standard_basis 1) (normalize3 y),
         dot3 (standard_basis 1) (normalize3 z)),
        (dot3 (standard_basis 2) (normalize3 x), dot3 (standard_basis 2) (normalize3 y),
         dot3 (standard_basis 2) (normalize3 z)))) (zip ux (zip uy uz))"
  have e: "rotation_matrices_from_basis ux uy uz = Inr ?Ms"
    by (rule from_basis_map[OF assms(1,2)])
  have len: "length ?Ms = length ux" using assms(1,2) by simp
  have M: "?Ms ! i = ?M"
    using assms(1,2,3)
    by (simp add: assms(4,6,8) normalize3_unit[OF assms(5)] normalize3_unit[OF assms(7)]
        normalize3_unit[OF assms(9)] dot3_standard_basis)
  have "mget ?M r c = dot3 (standard_basis r) (tget (ux ! i, uy ! i, uz ! i) c)"
    if "r < 3" "c < 3" for r c
  proof -
    have "r = 0 \<or> r = 1 \<or> r = 2" "c = 0 \<or> c = 1 \<or> c = 2" using that by auto
    then show ?thesis
      by (auto simp: assms(4,6,8) dot3_standard_basis mget_def)
  qed
  then show ?thesis using e len M by (intro exI[of _ ?Ms]) simp
qed

theorem rotation_matrices_from_basis_dot_products_witness:
  "rotation_matrices_from_basis [(Val 0, Val 1, Val 0)] [(Val (- 1), Val 0, Val 0)]
      [(Val 0, Val 0, Val 1)]
     = Inr [((Val 0, Val (- 1), Val 0), (Val 1, Val 0, Val 0), (Val 0, Val 0, Val 1))]
   \<and> mget ((Val 0, Val (- 1), Val 0), (Val 1, Val 0, Val 0), (Val 0, Val 0, Val 1)) 0 1
     = dot3 (standard_basis 0) (Val (- 1), Val 0, Val 0)"
proof -
  let ?M = "((Val 0, Val (- 1), Val 0), (Val 1, Val 0, Val 0), (Val 0, Val 0, Val 1))"
  have n: "normalize3 (Val 0, Val 1, Val 0) = (Val 0, Val 1, Val 0)"
    "normalize3 (Val (- 1), Val 0, Val 0) = (Val (- 1), Val 0, Val 0)"
    "normalize3 (Val 0, Val 0, Val 1) = (Val 0, Val 0, Val 1)"
    by (simp_all add: normalize3_unit)
  have e: "rotation_matrices_from_basis [(Val 0, Val 1, Val 0)] [(Val (- 1), Val 0, Val 0)]
      [(Val 0, Val 0, Val 1)] = Inr [?M]"
    by (simp add: from_basis_map n dot3_standard_basis)
  obtain Ms where Ms: "rotation_matrices_from_basis [(Val 0, Val 1, Val 0)]
      [(Val (- 1), Val 0, Val 0)] [(Val 0, Val 0, Val 1)] = Inr Ms"
    "\<forall>r<3. \<forall>c<3. mget (Ms ! 0) r c = dot3 (standard_basis r)
        (tget ([(Val 0, Val 1, Val 0)] ! 0, [(Val (- 1), Val 0, Val 0)] ! 0,
               [(Val 0, Val 0, Val 1)] ! 0) c)"
    using rotation_matrices_from_basis_dot_products
      [of "[(Val (- 1), Val 0, Val 0)]" "[(Val 0, Val 1, Val 0)]" "[(Val 0, Val 0, Val 1)]" 0
        0 1 0 "- 1" 0 0 0 0 1]
    by auto
  have "Ms = [?M]" using e Ms(1) by simp
  then have "mget ?M 0 1 = dot3 (standard_basis 0) (Val (- 1), Val 0, Val 0)"
    using Ms(2) by auto
  with e show ?thesis by simp
qed

section \<open>The rotation that takes one vector onto another\<close>

lemma broadcast_same: "length xs = length ys \<Longrightarrow> broadcast xs ys = Inr (zip xs ys)"
  by (simp add: broadcast_def)

lemma from_vectors_map:
  assumes "length v0 = length v1"
  shows "rotation_matrices_from_vectors v0 v1 =
    Inr (map (\<lambda>(a, b). rotation_matrix_from_vectors a b) (zip v0 v1))"
  using assms
  apply (simp add: rotation_matrices_from_vectors_def Let_def normalized_vectors_def
      vectors_normal_to_planes_def np_cross_def angles_between_list_of_vectors_def
      broadcast_same ebind_Inr from_angles_map)
  apply (rule nth_equalityI)
   apply simp
  apply (simp add: rotation_matrix_from_vectors_def Let_def)
  done

lemma rotations3d_aligned_mk:
  "rotations3d_rotate_vector_collection (Rank3 (mk3 n a b F)) (Rank2 (mk2 n b G)) optimize =
    Inr (Rank2 (mk2 n a (\<lambda>i j. fsum (\<lambda>k. F i j k * G i k) b)))"
proof -
  obtain A where A: "mk3 n a b F = Array3 n a b A" by (simp add: mk3_def)
  obtain B where B: "mk2 n b G = Array2 n b B" by (simp add: mk2_def)
  have "rotations3d_rotate_vector_collection (Rank3 (mk3 n a b F)) (Rank2 (mk2 n b G)) optimize =
    Inr (Rank2 (mk2 n a (\<lambda>i j. fsum (\<lambda>k. get3 (mk3 n a b F) i j k * get2 (mk2 n b G) i k) b)))"
    unfolding A B by (rule rotations3d_aligned)
  also have "mk2 n a (\<lambda>i j. fsum (\<lambda>k. get3 (mk3 n a b F) i j k * get2 (mk2 n b G) i k) b)
     = mk2 n a (\<lambda>i j. fsum (\<lambda>k. F i j k * G i k) b)"
    by (intro mk2_cong fsum_cong) (simp add: get3_mk3 get2_mk2)
  finally show ?thesis .
qed

lemma rotate_typed:
  assumes "length Ms = length vs"
  shows "rotations3d_rotate_vector_collection (array_of_mats Ms) (array_of_vecs vs) optimize =
    Inr (Rank2 (mk2 (length vs) 3
      (\<lambda>i j. fsum (\<lambda>k. mget (Ms ! i) j k * tget (vs ! i) k) 3)))"
  unfolding array_of_mats_def array_of_vecs_def assms by (rule rotations3d_aligned_mk)

lemma dot_real_self_zero: "dot_real v v = 0 \<longleftrightarrow> v = (0, 0, 0)"
  by (cases v) (simp add: sumsq_zero)

lemma dot_real_self_nonneg: "0 \<le> dot_real v v"
  by (cases v) (simp add: add_nonneg_nonneg)

lemma norm_real_pos: "v \<noteq> (0, 0, 0) \<Longrightarrow> 0 < norm_real v"
  unfolding norm_real_def using dot_real_self_zero[of v] dot_real_self_nonneg[of v]
  by (simp add: less_le)

lemma unit_axis_norm: "unit_axis (x, y, z) = (x / norm_real (x, y, z), y / norm_real (x, y, z),
    z / norm_real (x, y, z))"
  by (simp add: unit_axis_def norm_real_def power2_eq_square)

lemma normalize3_vec_of:
  "v \<noteq> (0, 0, 0) \<Longrightarrow> normalize3 (vec_of v) = vec_of (unit_axis v)"
  by (cases v) (auto simp: normalize3_Val unit_axis_def)

lemma unit_axis_dot:
  assumes "v \<noteq> (0, 0, 0)"
  shows "dot_real (unit_axis v) (unit_axis v) = 1"
proof -
  obtain x y z where v: "v = (x, y, z)" by (cases v)
  have "\<not> (x = 0 \<and> y = 0 \<and> z = 0)" using assms v by simp
  from unit_axis_unit[OF this] show ?thesis
    by (simp add: v unit_axis_def)
qed

lemma normalize3_unit_vec:
  "dot_real p p = 1 \<Longrightarrow> normalize3 (vec_of p) = vec_of p"
  by (cases p) (simp add: normalize3_unit power2_eq_square)

lemma cross3_vec_of: "cross3 (vec_of p) (vec_of q) = vec_of (cross_real p q)"
  by (cases p; cases q) simp

lemma dot3_vec_of: "dot3 (vec_of p) (vec_of q) = Val (dot_real p q)"
  by (cases p; cases q) simp

lemma lagrange:
  "(dot_real p q)\<^sup>2 + dot_real (cross_real p q) (cross_real p q) = dot_real p p * dot_real q q"
  by (cases p; cases q) (simp add: power2_eq_square algebra_simps)

lemma cross_unit_axis:
  assumes "a \<noteq> (0, 0, 0)" and "b \<noteq> (0, 0, 0)"
  shows "cross_real (unit_axis a) (unit_axis b) =
    (tget (cross_real a b) 0 / (norm_real a * norm_real b),
     tget (cross_real a b) 1 / (norm_real a * norm_real b),
     tget (cross_real a b) 2 / (norm_real a * norm_real b))"
proof -
  obtain a0 a1 a2 where a: "a = (a0, a1, a2)" by (cases a)
  obtain b0 b1 b2 where b: "b = (b0, b1, b2)" by (cases b)
  have "norm_real a \<noteq> 0" "norm_real b \<noteq> 0"
    using norm_real_pos[OF assms(1)] norm_real_pos[OF assms(2)] by auto
  then show ?thesis
    unfolding a b unit_axis_norm by (simp add: field_simps)
qed

lemma tget_vec_of: "tget (vec_of v) k = Val (tget v k)"
  by (cases v) simp

lemma rodrigues_rotates:
  fixes p0 p1 p2 q0 q1 q2 n0 n1 n2 L c s :: real
  assumes pp: "p0 * p0 + p1 * p1 + p2 * p2 = 1"
    and L: "L \<noteq> 0"
    and n0: "n0 * L = p1 * q2 - p2 * q1"
    and n1: "n1 * L = p2 * q0 - p0 * q2"
    and n2: "n2 * L = p0 * q1 - p1 * q0"
    and c: "c = p0 * q0 + p1 * q1 + p2 * q2"
    and s: "s = L"
  shows "(c + n0 * n0 * (1 - c)) * p0 + (n0 * n1 * (1 - c) - n2 * s) * p1
           + (n0 * n2 * (1 - c) + n1 * s) * p2 = q0"
    and "(n1 * n0 * (1 - c) + n2 * s) * p0 + (c + n1 * n1 * (1 - c)) * p1
           + (n1 * n2 * (1 - c) - n0 * s) * p2 = q1"
    and "(n2 * n0 * (1 - c) - n1 * s) * p0 + (n2 * n1 * (1 - c) + n0 * s) * p1
           + (c + n2 * n2 * (1 - c)) * p2 = q2"
proof -
  have "L * (n0 * p0 + n1 * p1 + n2 * p2) = 0"
    using n0 n1 n2 by algebra
  then have np: "n0 * p0 + n1 * p1 + n2 * p2 = 0"
    using L by simp
  show "(c + n0 * n0 * (1 - c)) * p0 + (n0 * n1 * (1 - c) - n2 * s) * p1
           + (n0 * n2 * (1 - c) + n1 * s) * p2 = q0"
    using np n0 n1 n2 pp unfolding s c by algebra
  show "(n1 * n0 * (1 - c) + n2 * s) * p0 + (c + n1 * n1 * (1 - c)) * p1
           + (n1 * n2 * (1 - c) - n0 * s) * p2 = q1"
    using np n0 n1 n2 pp unfolding s c by algebra
  show "(n2 * n0 * (1 - c) - n1 * s) * p0 + (n2 * n1 * (1 - c) + n0 * s) * p1
           + (c + n2 * n2 * (1 - c)) * p2 = q2"
    using np n0 n1 n2 pp unfolding s c by algebra
qed

lemma cross_real_zero_left: "cross_real (0, 0, 0) b = (0, 0, 0)"
  by (cases b) simp

lemma cross_real_zero_right: "cross_real a (0, 0, 0) = (0, 0, 0)"
  by (cases a) simp

lemma rotation_matrix_from_vectors_explicit:
  assumes nonpar: "cross_real a b \<noteq> (0, 0, 0)"
  defines "p \<equiv> unit_axis a" and "q \<equiv> unit_axis b"
  defines "w \<equiv> cross_real p q"
  defines "n \<equiv> unit_axis w"
  defines "\<theta> \<equiv> arccos (dot_real p q)"
  shows "rotation_matrix_from_vectors (vec_of a) (vec_of b)
           = rodrigues \<theta> (tget n 0) (tget n 1) (tget n 2)"
    and "cos \<theta> = dot_real p q" and "sin \<theta> = norm_real w" and "w \<noteq> (0, 0, 0)"
    and "dot_real p p = 1"
proof -
  have a: "a \<noteq> (0, 0, 0)" and b: "b \<noteq> (0, 0, 0)"
    using nonpar by (metis cross_real_zero_left, metis cross_real_zero_right)
  have pp: "dot_real p p = 1" and qq: "dot_real q q = 1"
    unfolding p_def q_def using a b by (simp_all add: unit_axis_dot)
  have ab: "0 < norm_real a * norm_real b"
    using norm_real_pos[OF a] norm_real_pos[OF b] by simp
  show w: "w \<noteq> (0, 0, 0)"
  proof
    assume "w = (0, 0, 0)"
    then have "tget (cross_real a b) 0 = 0 \<and> tget (cross_real a b) 1 = 0
        \<and> tget (cross_real a b) 2 = 0"
      using norm_real_pos[OF a] norm_real_pos[OF b]
      unfolding w_def p_def q_def cross_unit_axis[OF a b] by auto
    then have "cross_real a b = (0, 0, 0)"
      by (cases "cross_real a b") auto
    with nonpar show False by simp
  qed
  have lag: "(dot_real p q)\<^sup>2 + dot_real w w = 1"
    using lagrange[of p q] pp qq by (simp add: w_def)
  have ww: "0 < dot_real w w"
    using w dot_real_self_zero[of w] dot_real_self_nonneg[of w] by (simp add: less_le)
  have "(dot_real p q)\<^sup>2 \<le> 1" using lag ww by linarith
  then have "\<bar>dot_real p q\<bar> \<le> 1"
    by (simp add: abs_le_square_iff[of "dot_real p q" 1, simplified])
  then have t: "- 1 \<le> dot_real p q" "dot_real p q \<le> 1" by auto
  show cos: "cos \<theta> = dot_real p q"
    unfolding \<theta>_def using t by (simp add: cos_arccos)
  have "sin \<theta> = sqrt (1 - (dot_real p q)\<^sup>2)"
    unfolding \<theta>_def using t by (simp add: sin_arccos)
  also have "1 - (dot_real p q)\<^sup>2 = dot_real w w" using lag by simp
  finally show sin: "sin \<theta> = norm_real w" by (simp add: norm_real_def)
  have \<theta>0: "\<theta> \<noteq> 0"
  proof
    assume "\<theta> = 0"
    then have "norm_real w = 0" using sin by simp
    with norm_real_pos[OF w] show False by simp
  qed
  show "dot_real p p = 1" by (rule pp)
  have nn: "dot_real n n = 1" unfolding n_def using w by (simp add: unit_axis_dot)
  have 1: "normalize3 (vec_of a) = vec_of p" "normalize3 (vec_of b) = vec_of q"
    unfolding p_def q_def using a b by (simp_all add: normalize3_vec_of)
  have 2: "normalize3 (cross3 (vec_of p) (vec_of q)) = vec_of n"
    unfolding n_def using w by (simp add: cross3_vec_of w_def[symmetric] normalize3_vec_of)
  have 3: "angle3 (vec_of p) (vec_of q) = Val \<theta>"
    using t by (simp add: angle3_def normalize3_unit_vec pp qq dot3_vec_of \<theta>_def)
  have 4: "rotation_matrix_from_vectors (vec_of a) (vec_of b)
      = rotation_matrix_from_angle (Val \<theta>) (vec_of n)"
    using \<theta>0 by (simp add: rotation_matrix_from_vectors_def Let_def 1 2 3 tget_vec_of)
  obtain n0 n1 n2 where n: "n = (n0, n1, n2)" by (cases n)
  have "normalize3 (vec_of n) = (Val n0, Val n1, Val n2)"
    using nn by (simp add: normalize3_unit_vec) (simp add: n)
  then show "rotation_matrix_from_vectors (vec_of a) (vec_of b)
           = rodrigues \<theta> (tget n 0) (tget n 1) (tget n 2)"
    unfolding 4 by (simp add: rotation_matrix_explicit n)
qed

lemma rotation_matrix_from_vectors_apply:
  assumes nonpar: "cross_real (a0, a1, a2) (b0, b1, b2) \<noteq> (0, 0, 0)" and j: "j < 3"
  defines "M \<equiv> rotation_matrix_from_vectors (Val a0, Val a1, Val a2) (Val b0, Val b1, Val b2)"
  shows "Val 0 + mget M j 0 * Val a0 + mget M j 1 * Val a1 + mget M j 2 * Val a2
     = Val (norm_real (a0, a1, a2) / norm_real (b0, b1, b2) * tget (b0, b1, b2) j)"
proof -
  let ?a = "(a0, a1, a2)" and ?b = "(b0, b1, b2)"
  define A where "A = norm_real ?a"
  define B where "B = norm_real ?b"
  define p0 p1 p2 where "p0 = a0 / A" and "p1 = a1 / A" and "p2 = a2 / A"
  define q0 q1 q2 where "q0 = b0 / B" and "q1 = b1 / B" and "q2 = b2 / B"
  have p: "unit_axis ?a = (p0, p1, p2)" and q: "unit_axis ?b = (q0, q1, q2)"
    by (simp_all add: unit_axis_norm p0_def p1_def p2_def q0_def q1_def q2_def A_def B_def)
  define w where "w = cross_real (p0, p1, p2) (q0, q1, q2)"
  define L where "L = norm_real w"
  define \<theta> where "\<theta> = arccos (dot_real (p0, p1, p2) (q0, q1, q2))"
  define n0 n1 n2 where "n0 = tget w 0 / L" and "n1 = tget w 1 / L" and "n2 = tget w 2 / L"
  have n: "unit_axis w = (n0, n1, n2)"
    by (cases w) (simp add: unit_axis_norm n0_def n1_def n2_def L_def)
  note e = rotation_matrix_from_vectors_explicit[OF nonpar, unfolded p q, folded w_def,
      unfolded n, folded \<theta>_def L_def]
  have M: "M = rodrigues \<theta> n0 n1 n2"
    unfolding M_def using e(1) by simp
  have L: "L \<noteq> 0" using norm_real_pos[OF e(4)] by (simp add: L_def)
  have a: "?a \<noteq> (0, 0, 0)"
    using nonpar by (metis cross_real_zero_left)
  have A: "A \<noteq> 0" using norm_real_pos[OF a] by (simp add: A_def)
  have nL: "n0 * L = p1 * q2 - p2 * q1" "n1 * L = p2 * q0 - p0 * q2"
    "n2 * L = p0 * q1 - p1 * q0"
    using L by (simp_all add: n0_def n1_def n2_def w_def)
  have pp: "p0 * p0 + p1 * p1 + p2 * p2 = 1" using e(5) by simp
  have c: "cos \<theta> = p0 * q0 + p1 * q1 + p2 * q2" using e(2) by simp
  note r = rodrigues_rotates[OF pp L nL c e(3)]
  have as: "a0 = A * p0" "a1 = A * p1" "a2 = A * p2"
    using A by (simp_all add: p0_def p1_def p2_def)
  have scale: "m0 * a0 + m1 * a1 + m2 * a2 = A * (m0 * p0 + m1 * p1 + m2 * p2)"
    for m0 m1 m2 :: real
    unfolding as by (simp add: algebra_simps)
  have qs: "A * b0 / B = A * q0" "A * b1 / B = A * q1" "A * b2 / B = A * q2"
    by (simp_all add: q0_def q1_def q2_def)
  have "j = 0 \<or> j = 1 \<or> j = 2" using j by auto
  then show ?thesis
    unfolding M rodrigues_def A_def[symmetric] B_def[symmetric]
    by (auto simp: mget_def scale r qs)
qed

lemma mk2_1_3: "mk2 (Suc 0) 3 f = Array2 1 3 [f 0 0, f 0 1, f 0 2]"
  by (simp add: mk2_def upt_conv_Cons numeral_2_eq_2[symmetric])

lemma quarter_turn_matrix:
  "rotation_matrix_from_vectors (Val x, Val 0, Val 0) (Val 0, Val 1, Val 0) =
     ((Val 0, Val (- 1), Val 0), (Val 1, Val 0, Val 0), (Val 0, Val 0, Val 1))"
  if "0 < x" for x :: real
proof -
  have 1: "normalize3 (Val x, Val 0, Val 0) = (Val 1, Val 0, Val 0)"
    using that by (simp add: normalize3_Val)
  have 2: "normalize3 (Val 0, Val 1, Val 0) = (Val 0, Val 1, Val 0)"
    "normalize3 (Val 1, Val 0, Val 0) = (Val 1, Val 0, Val 0)"
    "normalize3 (Val 0, Val 0, Val 1) = (Val 0, Val 0, Val 1)"
    by (simp_all add: normalize3_unit)
  have 3: "angle3 (Val 1, Val 0, Val 0) (Val 0, Val 1, Val 0) = Val (pi / 2)"
    by (simp add: angle3_def 2)
  show ?thesis
    by (simp add: rotation_matrix_from_vectors_def Let_def 1 2 3
        rotation_matrix_explicit[OF 2(3)] rodrigues_def)
qed

text \<open>
  C1, as amended. For index-aligned collections \<open>v0\<close> and \<open>v1\<close> and every index \<open>i\<close>
  where the two vectors are numbers and not parallel (their cross product is not zero,
  so neither is zero), \<open>rotation_matrices_from_vectors\<close> returns matrices, and applying
  them to \<open>v0\<close> with \<open>rotate_vector_collection\<close> gives at index \<open>i\<close> the vector
  \<open>v1[i]\<close> rescaled to the length of \<open>v0[i]\<close>: component \<open>j\<close> is
  \<open>|v0[i]| / |v1[i]| * v1[i][j]\<close>. Where the two vectors have the same length, as unit
  vectors have, this is \<open>v1[i]\<close> itself.
\<close>

theorem rotation_from_vectors_round_trip:
  assumes "length v0 = length v1" and "i < length v0"
    and "v0 ! i = (Val a0, Val a1, Val a2)" and "v1 ! i = (Val b0, Val b1, Val b2)"
    and "cross_real (a0, a1, a2) (b0, b1, b2) \<noteq> (0, 0, 0)"
  shows "\<exists>Ms out. rotation_matrices_from_vectors v0 v1 = Inr Ms
     \<and> rotations3d_rotate_vector_collection (array_of_mats Ms) (array_of_vecs v0) optimize
         = Inr (Rank2 out)
     \<and> shape (Rank2 out) = [length v0, 3]
     \<and> (\<forall>j<3. get2 out i j
           = Val (norm_real (a0, a1, a2) / norm_real (b0, b1, b2) * tget (b0, b1, b2) j))
     \<and> (norm_real (a0, a1, a2) = norm_real (b0, b1, b2) \<longrightarrow>
           (\<forall>j<3. get2 out i j = Val (tget (b0, b1, b2) j)))"
proof -
  let ?Ms = "map (\<lambda>(a, b). rotation_matrix_from_vectors a b) (zip v0 v1)"
  let ?out = "mk2 (length v0) 3 (\<lambda>i j. fsum (\<lambda>k. mget (?Ms ! i) j k * tget (v0 ! i) k) 3)"
  have 1: "rotation_matrices_from_vectors v0 v1 = Inr ?Ms"
    by (rule from_vectors_map[OF assms(1)])
  have len: "length ?Ms = length v0" using assms(1) by simp
  have 2: "rotations3d_rotate_vector_collection (array_of_mats ?Ms) (array_of_vecs v0) optimize
         = Inr (Rank2 ?out)"
    by (rule rotate_typed[OF len])
  have 3: "shape (Rank2 ?out) = [length v0, 3]" by (rule shape_mk2)
  have Mi: "?Ms ! i = rotation_matrix_from_vectors (Val a0, Val a1, Val a2) (Val b0, Val b1, Val b2)"
    using assms(1,2) by (simp add: assms(3,4))
  have 4: "get2 ?out i j
           = Val (norm_real (a0, a1, a2) / norm_real (b0, b1, b2) * tget (b0, b1, b2) j)"
    if j: "j < 3" for j
    using rotation_matrix_from_vectors_apply[OF assms(5) j]
    by (simp add: get2_mk2[OF assms(2) j] fsum_3 Mi assms(3) del: get2.simps)
  have b: "(b0, b1, b2) \<noteq> (0, 0, 0)"
    using assms(5) by (metis cross_real_zero_right)
  have 5: "get2 ?out i j = Val (tget (b0, b1, b2) j)"
    if "norm_real (a0, a1, a2) = norm_real (b0, b1, b2)" and j: "j < 3" for j
    using 4[OF j] norm_real_pos[OF b] that(1) by simp
  show ?thesis
    using 1 2 3 4 5 by blast
qed

theorem rotation_from_vectors_round_trip_witness:
  "rotation_matrices_from_vectors [(Val 3, Val 0, Val 0)] [(Val 0, Val 1, Val 0)]
     = Inr [((Val 0, Val (- 1), Val 0), (Val 1, Val 0, Val 0), (Val 0, Val 0, Val 1))]
   \<and> rotations3d_rotate_vector_collection
       (array_of_mats [((Val 0, Val (- 1), Val 0), (Val 1, Val 0, Val 0), (Val 0, Val 0, Val 1))])
       (array_of_vecs [(Val 3, Val 0, Val 0)]) False
     = Inr (Rank2 (Array2 1 3 [Val 0, Val 3, Val 0]))
   \<and> get2 (Array2 1 3 [Val 0, Val 3, Val 0]) 0 1
     = Val (norm_real (3, 0, 0) / norm_real (0, 1, 0) * tget (0, 1, 0) 1)"
proof -
  let ?M = "((Val 0, Val (- 1), Val 0), (Val 1, Val 0, Val 0), (Val 0, Val 0, Val 1))"
  let ?v0 = "[(Val 3, Val 0, Val 0)]" and ?v1 = "[(Val 0, Val 1, Val 0)]"
  have e1: "rotation_matrices_from_vectors ?v0 ?v1 = Inr [?M]"
    by (simp add: from_vectors_map quarter_turn_matrix)
  have e2: "rotations3d_rotate_vector_collection (array_of_mats [?M]) (array_of_vecs ?v0) False
     = Inr (Rank2 (Array2 1 3 [Val 0, Val 3, Val 0]))"
    by (simp add: rotate_typed mk2_1_3 fsum_3 mget_def)
  obtain Ms out where h: "rotation_matrices_from_vectors ?v0 ?v1 = Inr Ms"
    "rotations3d_rotate_vector_collection (array_of_mats Ms) (array_of_vecs ?v0) False
         = Inr (Rank2 out)"
    "\<forall>j<3. get2 out 0 j = Val (norm_real (3, 0, 0) / norm_real (0, 1, 0) * tget (0, 1, 0) j)"
    using rotation_from_vectors_round_trip [of ?v0 ?v1 0 3 0 0 0 1 0 False]
    by auto
  have "Ms = [?M]" using e1 h(1) by simp
  then have out: "out = Array2 1 3 [Val 0, Val 3, Val 0]" using e2 h(2) by simp
  have "get2 out 0 1 = Val (norm_real (3, 0, 0) / norm_real (0, 1, 0) * tget (0, 1, 0) 1)"
    by (rule h(3)[rule_format]) simp
  then have "get2 (Array2 1 3 [Val 0, Val 3, Val 0]) 0 1
     = Val (norm_real (3, 0, 0) / norm_real (0, 1, 0) * tget (0, 1, 0) 1)"
    unfolding out .
  with e1 e2 show ?thesis by blast
qed

text \<open>
  The claim without the restriction to equal lengths fails: for \<open>v0 = (2, 0, 0)\<close> and
  \<open>v1 = (0, 1, 0)\<close>, not parallel and not zero, the returned matrix is the quarter turn
  about the third axis and its product with \<open>v0\<close> is \<open>(0, 2, 0)\<close>, not \<open>v1\<close>.
\<close>

theorem rotation_from_vectors_counterexample:
  "rotation_matrices_from_vectors [(Val 2, Val 0, Val 0)] [(Val 0, Val 1, Val 0)]
     = Inr [((Val 0, Val (- 1), Val 0), (Val 1, Val 0, Val 0), (Val 0, Val 0, Val 1))]
   \<and> rotations3d_rotate_vector_collection
       (array_of_mats [((Val 0, Val (- 1), Val 0), (Val 1, Val 0, Val 0), (Val 0, Val 0, Val 1))])
       (array_of_vecs [(Val 2, Val 0, Val 0)]) False
     = Inr (Rank2 (Array2 1 3 [Val 0, Val 2, Val 0]))
   \<and> array_of_vecs [(Val 0, Val 1, Val 0)] = Rank2 (Array2 1 3 [Val 0, Val 1, Val 0])
   \<and> cross_real (2, 0, 0) (0, 1, 0) \<noteq> (0, 0, 0)"
proof -
  let ?M = "((Val 0, Val (- 1), Val 0), (Val 1, Val 0, Val 0), (Val 0, Val 0, Val 1))"
  have "rotation_matrices_from_vectors [(Val 2, Val 0, Val 0)] [(Val 0, Val 1, Val 0)]
     = Inr [?M]"
    by (simp add: from_vectors_map quarter_turn_matrix)
  moreover have "rotations3d_rotate_vector_collection (array_of_mats [?M])
       (array_of_vecs [(Val 2, Val 0, Val 0)]) False
     = Inr (Rank2 (Array2 1 3 [Val 0, Val 2, Val 0]))"
    by (simp add: rotate_typed mk2_1_3 fsum_3 mget_def)
  moreover have "array_of_vecs [(Val 0, Val 1, Val 0)]
     = Rank2 (Array2 1 3 [Val 0, Val 1, Val 0])"
    by (simp add: array_of_vecs_def mk2_1_3)
  moreover have "cross_real (2, 0, 0) (0, 1, 0) \<noteq> (0, 0, 0)"
    by simp
  ultimately show ?thesis by blast
qed

end
